theory Spec2Isabelle
  imports Main "HOL-Library.Word"
begin

section \<open>Data model of llpathfindingmanager.cpp\<close>

text \<open>
  The pathfinding manager is a singleton whose methods mutate its own fields, allocate
  join coordinators that two HTTP responders share, hand requests to the HTTP client and
  call listeners. The model threads one record, \<open>world\<close>, through every method: the
  fields of the singleton under their own names, the agent as the manager sees it, a store
  of join coordinators addressed by number, and the effects a caller can observe (the
  requests dispatched, the listener and callback invocations, the violated assertions).
  Definitions come first, in the order of the source; the theorems follow them.
\<close>

type_synonym U32 = "32 word"
type_synonym S32 = "32 word"

text \<open>An \<open>LLUUID\<close> is held in its canonical string form, so \<open>asString\<close> is the identity.
  A default-constructed \<open>LLUUID\<close> is the null identifier.\<close>

type_synonym LLUUID = string

definition LLUUID_null :: LLUUID where
  "LLUUID_null = ''00000000-0000-0000-0000-000000000000''"

text \<open>Modelled from the spec: \<open>LLSD\<close> is declared in llsd.h, which is not among the sources.
  Only the shapes the manager touches are kept: the undefined value, a boolean, and a map
  from field names to values.\<close>

datatype LLSD = LLSDUndefined | LLSDBoolean bool | LLSDMap "(string \<times> LLSD) list"

fun isUndefined :: "LLSD \<Rightarrow> bool" where
  "isUndefined LLSDUndefined = True"
| "isUndefined _ = False"

fun isBoolean :: "LLSD \<Rightarrow> bool" where
  "isBoolean (LLSDBoolean b) = True"
| "isBoolean _ = False"

fun asBoolean :: "LLSD \<Rightarrow> bool" where
  "asBoolean (LLSDBoolean b) = b"
| "asBoolean _ = False"

fun has :: "LLSD \<Rightarrow> string \<Rightarrow> bool" where
  "has (LLSDMap kvs) k = (map_of kvs k \<noteq> None)"
| "has _ k = False"

fun get :: "LLSD \<Rightarrow> string \<Rightarrow> LLSD" where
  "get (LLSDMap kvs) k = (case map_of kvs k of None \<Rightarrow> LLSDUndefined | Some v \<Rightarrow> v)"
| "get _ k = LLSDUndefined"

text \<open>\<open>request[k] = v\<close>: an undefined value becomes a map on its first field.\<close>

fun set_field :: "LLSD \<Rightarrow> string \<Rightarrow> LLSD \<Rightarrow> LLSD" where
  "set_field (LLSDMap kvs) k v = LLSDMap ((k, v) # filter (\<lambda>kv. fst kv \<noteq> k) kvs)"
| "set_field _ k v = LLSDMap [(k, v)]"

definition CAP_SERVICE_RETRIEVE_NAVMESH :: string where
  "CAP_SERVICE_RETRIEVE_NAVMESH = ''RetrieveNavMeshSrc''"

definition CAP_SERVICE_AGENT_STATE :: string where
  "CAP_SERVICE_AGENT_STATE = ''AgentPreferences''"

definition ALTER_NAVMESH_OBJECTS_FIELD :: string where
  "ALTER_NAVMESH_OBJECTS_FIELD = ''alter_navmesh_objects''"

definition DEPRECATED_ALTER_NAVMESH_OBJECTS_FIELD :: string where
  "DEPRECATED_ALTER_NAVMESH_OBJECTS_FIELD = ''alter_permanent_objects''"

definition CAP_SERVICE_OBJECT_LINKSETS :: string where
  "CAP_SERVICE_OBJECT_LINKSETS = ''ObjectNavMeshProperties''"

definition CAP_SERVICE_TERRAIN_LINKSETS :: string where
  "CAP_SERVICE_TERRAIN_LINKSETS = ''TerrainNavMeshProperties''"

datatype EAgentState =
  kAgentStateUnknown | kAgentStateNotEnabled | kAgentStateError
| kAgentStateFrozen | kAgentStateUnfrozen

datatype ELinksetsRequestStatus =
  kLinksetsRequestNotEnabled | kLinksetsRequestStarted
| kLinksetsRequestCompleted | kLinksetsRequestError

datatype EMessagingState = kNotRequested | kWaiting | kReceivedGood | kReceivedError

text \<open>Modelled from the spec: \<open>LLViewerRegion\<close> is declared in llviewerregion.h, which is
  not among the sources. The record holds what the manager reads of a region: its
  identifier, its name, its capability table (the empty string for a capability the region
  does not have) and whether the agent may manage the estate.\<close>

record LLViewerRegion =
  getRegionID :: LLUUID
  getName :: string
  getCapability :: "string \<Rightarrow> string"
  canManageEstate :: bool

text \<open>Modelled from the spec: \<open>LLPathfindingLinkset\<close> and \<open>LLPathfindingLinksetList\<close> are
  declared in llpathfindinglinkset.h and llpathfindinglinksetlist.h, which are not among
  the sources. A linkset is the navigation properties of one object or of the terrain
  under an identifier: a use category and four integers. A linkset list maps identifiers
  in string form to linksets, keys unique.\<close>

datatype ELinksetUse =
  kWalkable | kStaticObstacle | kDynamicObstacle | kMaterialVolume | kExclusionVolume

record LLPathfindingLinkset =
  getUUID :: LLUUID
  getLinksetUse :: ELinksetUse
  getA :: S32
  getB :: S32
  getC :: S32
  getD :: S32

type_synonym LLPathfindingLinksetList = "string \<rightharpoonup> LLPathfindingLinkset"

text \<open>\<open>insert(std::pair<std::string, LLPathfindingLinksetPtr>(k, v))\<close> is the insertion of
  an associative container with unique keys: an entry already stored under \<open>k\<close> stays.\<close>

definition LinksetList_insert ::
  "LLPathfindingLinksetList \<Rightarrow> string \<Rightarrow> LLPathfindingLinkset \<Rightarrow> LLPathfindingLinksetList" where
  "LinksetList_insert l k v = (case l k of None \<Rightarrow> l(k \<mapsto> v) | Some u \<Rightarrow> l)"

text \<open>Callbacks and listeners are \<open>boost::function\<close> values; the model names each by a
  number and records every invocation with its arguments.\<close>

type_synonym linksets_callback_t = nat
type_synonym agent_state_callback_t = nat
type_synonym navmesh_callback_t = nat

record LinksetsResponder =
  mLinksetsCallback :: linksets_callback_t
  mObjectMessagingState :: EMessagingState
  mTerrainMessagingState :: EMessagingState
  mObjectLinksetListPtr :: "LLPathfindingLinksetList option"
  mTerrainLinksetPtr :: "LLPathfindingLinkset option"

text \<open>Modelled from the spec: \<open>LLPathfindingNavMesh\<close> is declared in
  llpathfindingnavmesh.h, which is not among the sources. A cache entry holds its region,
  its lifecycle state, its last known version, its payload and its listeners; the
  notifications it has sent are recorded in it.\<close>

datatype ENavMeshRequestStatus =
  kNavMeshRequestUnknown | kNavMeshRequestStarted | kNavMeshRequestCompleted
| kNavMeshRequestNotEnabled | kNavMeshRequestError

record LLPathfindingNavMesh =
  mRegionUUID :: LLUUID
  mNavMeshRequestStatus :: ENavMeshRequestStatus
  mNavMeshVersion :: U32
  mNavMeshData :: LLSD
  mNavMeshSignal :: "navmesh_callback_t list"
  navMeshCalls :: "(navmesh_callback_t \<times> ENavMeshRequestStatus \<times> U32) list"

text \<open>The responders handed to the HTTP client. A \<open>NavMeshResponder\<close> points at a cache
  entry, which lives in the manager's map under its region identifier; the two linksets
  responders point at one shared \<open>LinksetsResponder\<close>, by its address in the store.\<close>

datatype Responder =
  NavMeshResponder string U32 LLUUID
| AgentStateResponder string EAgentState
| ObjectLinksetsResponder string nat
| TerrainLinksetsResponder string nat

datatype HTTPRequest =
  HTTPGet string Responder
| HTTPPost string LLSD Responder
| HTTPPut string LLSD Responder

datatype fault = NullPointer

record world =
  gAgent_getRegion :: "LLViewerRegion option"
  gAgent_isGodlike :: bool
  mNavMeshMap :: "LLUUID \<rightharpoonup> LLPathfindingNavMesh"
  mNavMeshVersionXXX :: U32
  mAgentStateSignal :: "agent_state_callback_t list"
  mAgentState :: EAgentState
  mLastKnownNonErrorAgentState :: EAgentState
  linksetsResponders :: "nat \<rightharpoonup> LinksetsResponder"
  nextLinksetsResponder :: nat
  httpRequests :: "HTTPRequest list"
  agentStateSignalled :: "(EAgentState \<times> agent_state_callback_t list) list"
  linksetsCalls ::
    "(linksets_callback_t \<times> ELinksetsRequestStatus \<times> LLPathfindingLinksetList option) list"
  failedAsserts :: nat

text \<open>Modelled from the spec: \<open>llassert\<close> is a macro of llerror.h, which is not among the
  sources. A violated assertion is recorded and the method goes on, as the spec describes
  the mismatched agent state ("logged as an assertion-worthy condition").\<close>

definition llassert :: "bool \<Rightarrow> world \<Rightarrow> world" where
  "llassert c w = (if c then w else w\<lparr>failedAsserts := Suc (failedAsserts w)\<rparr>)"

section \<open>LinksetsResponder\<close>

text \<open>The constructor's initialiser list, and \<open>new LinksetsResponder(...)\<close>, which places
  the coordinator in the store and returns its address.\<close>

definition LinksetsResponder_ctor :: "linksets_callback_t \<Rightarrow> bool \<Rightarrow> bool \<Rightarrow> LinksetsResponder" where
  "LinksetsResponder_ctor pLinksetsCallback pIsObjectRequested pIsTerrainRequested =
     \<lparr>mLinksetsCallback = pLinksetsCallback,
      mObjectMessagingState = (if pIsObjectRequested then kWaiting else kNotRequested),
      mTerrainMessagingState = (if pIsTerrainRequested then kWaiting else kNotRequested),
      mObjectLinksetListPtr = None,
      mTerrainLinksetPtr = None\<rparr>"

definition LinksetsResponder_new ::
  "linksets_callback_t \<Rightarrow> bool \<Rightarrow> bool \<Rightarrow> world \<Rightarrow> nat \<times> world" where
  "LinksetsResponder_new pLinksetsCallback pIsObjectRequested pIsTerrainRequested w =
     (let this = nextLinksetsResponder w
      in (this,
          w\<lparr>linksetsResponders := (linksetsResponders w)
               (this \<mapsto> LinksetsResponder_ctor pLinksetsCallback pIsObjectRequested
                          pIsTerrainRequested),
            nextLinksetsResponder := Suc this\<rparr>))"

definition requestStatus_of :: "LinksetsResponder \<Rightarrow> ELinksetsRequestStatus" where
  "requestStatus_of r =
     (if (mObjectMessagingState r = kReceivedGood \<or> mObjectMessagingState r = kNotRequested) \<and>
         (mTerrainMessagingState r = kReceivedGood \<or> mTerrainMessagingState r = kNotRequested)
      then kLinksetsRequestCompleted else kLinksetsRequestError)"

text \<open>\<open>mLinksetsCallback(requestStatus, mObjectLinksetListPtr)\<close>, after the coordinator
  \<open>r\<close> has been written back to the store.\<close>

definition invoke_callback ::
  "nat \<Rightarrow> LinksetsResponder \<Rightarrow> ELinksetsRequestStatus \<Rightarrow> world \<Rightarrow> world" where
  "invoke_callback this r requestStatus w =
     w\<lparr>linksetsResponders := (linksetsResponders w)(this \<mapsto> r),
       linksetsCalls := linksetsCalls w @
         [(mLinksetsCallback r, requestStatus, mObjectLinksetListPtr r)]\<rparr>"

definition sendCallback :: "nat \<Rightarrow> world \<Rightarrow> fault + world" where
  "sendCallback this w =
     (case linksetsResponders w this of
        None \<Rightarrow> Inl NullPointer
      | Some r \<Rightarrow>
          let w1 = llassert (mObjectMessagingState r \<noteq> kWaiting) w;
              w2 = llassert (mTerrainMessagingState r \<noteq> kWaiting) w1;
              requestStatus = requestStatus_of r;
              r1 = (if mObjectMessagingState r \<noteq> kReceivedGood
                    then r\<lparr>mObjectLinksetListPtr := Some Map.empty\<rparr> else r)
          in if mTerrainMessagingState r1 = kReceivedGood
             then (case mObjectLinksetListPtr r1 of
                     None \<Rightarrow> Inl NullPointer
                   | Some l \<Rightarrow>
                       (case mTerrainLinksetPtr r1 of
                          None \<Rightarrow> Inl NullPointer
                        | Some t \<Rightarrow>
                            Inr (invoke_callback this
                                   (r1\<lparr>mObjectLinksetListPtr :=
                                         Some (LinksetList_insert l (getUUID t) t)\<rparr>)
                                   requestStatus w2)))
             else Inr (invoke_callback this r1 requestStatus w2))"

text \<open>The constructors \<open>LLPathfindingLinksetList(pContent)\<close> and
  \<open>LLPathfindingLinkset(pContent)\<close> are not among the sources: the two result handlers
  take the constructed value in place of the \<open>LLSD\<close> it is built from.\<close>

definition handleObjectLinksetsResult ::
  "nat \<Rightarrow> LLPathfindingLinksetList \<Rightarrow> world \<Rightarrow> fault + world" where
  "handleObjectLinksetsResult this pContent w =
     (case linksetsResponders w this of
        None \<Rightarrow> Inl NullPointer
      | Some r \<Rightarrow>
          let r1 = r\<lparr>mObjectLinksetListPtr := Some pContent,
                     mObjectMessagingState := kReceivedGood\<rparr>;
              w1 = w\<lparr>linksetsResponders := (linksetsResponders w)(this \<mapsto> r1)\<rparr>
          in if mTerrainMessagingState r1 \<noteq> kWaiting then sendCallback this w1 else Inr w1)"

definition handleObjectLinksetsError ::
  "nat \<Rightarrow> U32 \<Rightarrow> string \<Rightarrow> string \<Rightarrow> world \<Rightarrow> fault + world" where
  "handleObjectLinksetsError this pStatus pReason pURL w =
     (case linksetsResponders w this of
        None \<Rightarrow> Inl NullPointer
      | Some r \<Rightarrow>
          let r1 = r\<lparr>mObjectMessagingState := kReceivedError\<rparr>;
              w1 = w\<lparr>linksetsResponders := (linksetsResponders w)(this \<mapsto> r1)\<rparr>
          in if mTerrainMessagingState r1 \<noteq> kWaiting then sendCallback this w1 else Inr w1)"

definition handleTerrainLinksetsResult ::
  "nat \<Rightarrow> LLPathfindingLinkset \<Rightarrow> world \<Rightarrow> fault + world" where
  "handleTerrainLinksetsResult this pContent w =
     (case linksetsResponders w this of
        None \<Rightarrow> Inl NullPointer
      | Some r \<Rightarrow>
          let r1 = r\<lparr>mTerrainLinksetPtr := Some pContent,
                     mTerrainMessagingState := kReceivedGood\<rparr>;
              w1 = w\<lparr>linksetsResponders := (linksetsResponders w)(this \<mapsto> r1)\<rparr>
          in if mObjectMessagingState r1 \<noteq> kWaiting then sendCallback this w1 else Inr w1)"

definition handleTerrainLinksetsError ::
  "nat \<Rightarrow> U32 \<Rightarrow> string \<Rightarrow> string \<Rightarrow> world \<Rightarrow> fault + world" where
  "handleTerrainLinksetsError this pStatus pReason pURL w =
     (case linksetsResponders w this of
        None \<Rightarrow> Inl NullPointer
      | Some r \<Rightarrow>
          let r1 = r\<lparr>mTerrainMessagingState := kReceivedError\<rparr>;
              w1 = w\<lparr>linksetsResponders := (linksetsResponders w)(this \<mapsto> r1)\<rparr>
          in if mObjectMessagingState r1 \<noteq> kWaiting then sendCallback this w1 else Inr w1)"

text \<open>The methods of the two HTTP responders that share a coordinator.\<close>

definition ObjectLinksetsResponder_result ::
  "string \<Rightarrow> nat \<Rightarrow> LLPathfindingLinksetList \<Rightarrow> world \<Rightarrow> fault + world" where
  "ObjectLinksetsResponder_result mCapabilityURL mLinksetsResponsderPtr pContent w =
     handleObjectLinksetsResult mLinksetsResponsderPtr pContent w"

definition ObjectLinksetsResponder_error ::
  "string \<Rightarrow> nat \<Rightarrow> U32 \<Rightarrow> string \<Rightarrow> world \<Rightarrow> fault + world" where
  "ObjectLinksetsResponder_error mCapabilityURL mLinksetsResponsderPtr pStatus pReason w =
     handleObjectLinksetsError mLinksetsResponsderPtr pStatus pReason mCapabilityURL w"

definition TerrainLinksetsResponder_result ::
  "string \<Rightarrow> nat \<Rightarrow> LLPathfindingLinkset \<Rightarrow> world \<Rightarrow> fault + world" where
  "TerrainLinksetsResponder_result mCapabilityURL mLinksetsResponsderPtr pContent w =
     handleTerrainLinksetsResult mLinksetsResponsderPtr pContent w"

definition TerrainLinksetsResponder_error ::
  "string \<Rightarrow> nat \<Rightarrow> U32 \<Rightarrow> string \<Rightarrow> world \<Rightarrow> fault + world" where
  "TerrainLinksetsResponder_error mCapabilityURL mLinksetsResponsderPtr pStatus pReason w =
     handleTerrainLinksetsError mLinksetsResponsderPtr pStatus pReason mCapabilityURL w"

text \<open>The completions the HTTP client can deliver to the responders of one coordinator
  (\<open>ou\<close> and \<open>tu\<close> are the capability addresses the two responders were built with), and
  their delivery in the order of arrival. A fault stops the run.\<close>

datatype LinksetsCompletion =
  ObjectResult LLPathfindingLinksetList
| ObjectError U32 string
| TerrainResult LLPathfindingLinkset
| TerrainError U32 string

fun complete :: "string \<Rightarrow> string \<Rightarrow> nat \<Rightarrow> LinksetsCompletion \<Rightarrow> world \<Rightarrow> fault + world" where
  "complete ou tu this (ObjectResult l) w = ObjectLinksetsResponder_result ou this l w"
| "complete ou tu this (ObjectError st re) w = ObjectLinksetsResponder_error ou this st re w"
| "complete ou tu this (TerrainResult t) w = TerrainLinksetsResponder_result tu this t w"
| "complete ou tu this (TerrainError st re) w = TerrainLinksetsResponder_error tu this st re w"

fun complete_all ::
  "string \<Rightarrow> string \<Rightarrow> nat \<Rightarrow> LinksetsCompletion list \<Rightarrow> world \<Rightarrow> fault + world" where
  "complete_all ou tu this [] w = Inr w"
| "complete_all ou tu this (e # es) w =
     (case complete ou tu this e w of
        Inl f \<Rightarrow> Inl f
      | Inr w1 \<Rightarrow> complete_all ou tu this es w1)"

fun is_object_completion :: "LinksetsCompletion \<Rightarrow> bool" where
  "is_object_completion (ObjectResult l) = True"
| "is_object_completion (ObjectError st re) = True"
| "is_object_completion _ = False"

fun is_terrain_completion :: "LinksetsCompletion \<Rightarrow> bool" where
  "is_terrain_completion (TerrainResult t) = True"
| "is_terrain_completion (TerrainError st re) = True"
| "is_terrain_completion _ = False"

text \<open>The contract of the HTTP client: each responder handed to it is completed once, by
  a result or by an error; a sub-operation that was not requested has no responder.\<close>

definition completes_once :: "bool \<Rightarrow> bool \<Rightarrow> LinksetsCompletion list \<Rightarrow> bool" where
  "completes_once pIsObjectRequested pIsTerrainRequested es =
     (length (filter is_object_completion es) = (if pIsObjectRequested then 1 else 0) \<and>
      length (filter is_terrain_completion es) = (if pIsTerrainRequested then 1 else 0))"

section \<open>LLPathfindingNavMesh\<close>

text \<open>Modelled from the spec: the methods of the cache entry are defined in
  llpathfindingnavmesh.cpp, which is not among the sources. Each follows the transition
  the spec gives it in 4.1; an entry "has" a version when it holds completed data of that
  version.\<close>

definition LLPathfindingNavMesh_new :: "LLUUID \<Rightarrow> LLPathfindingNavMesh" where
  "LLPathfindingNavMesh_new pRegionUUID =
     \<lparr>mRegionUUID = pRegionUUID, mNavMeshRequestStatus = kNavMeshRequestUnknown,
      mNavMeshVersion = 0, mNavMeshData = LLSDUndefined, mNavMeshSignal = [],
      navMeshCalls = []\<rparr>"

definition hasNavMeshVersion :: "LLPathfindingNavMesh \<Rightarrow> U32 \<Rightarrow> bool" where
  "hasNavMeshVersion e pNavMeshVersion =
     (mNavMeshRequestStatus e = kNavMeshRequestCompleted \<and> mNavMeshVersion e = pNavMeshVersion)"

definition announce :: "LLPathfindingNavMesh \<Rightarrow> LLPathfindingNavMesh" where
  "announce e =
     e\<lparr>navMeshCalls := navMeshCalls e @
         map (\<lambda>l. (l, mNavMeshRequestStatus e, mNavMeshVersion e)) (mNavMeshSignal e)\<rparr>"

definition registerNavMeshListener ::
  "navmesh_callback_t \<Rightarrow> LLPathfindingNavMesh \<Rightarrow> LLPathfindingNavMesh" where
  "registerNavMeshListener pNavMeshCallback e =
     e\<lparr>mNavMeshSignal := mNavMeshSignal e @ [pNavMeshCallback]\<rparr>"

definition handleRefresh :: "LLPathfindingNavMesh \<Rightarrow> LLPathfindingNavMesh" where
  "handleRefresh e = announce e"

definition handleNavMeshStart :: "U32 \<Rightarrow> LLPathfindingNavMesh \<Rightarrow> LLPathfindingNavMesh" where
  "handleNavMeshStart pNavMeshVersion e =
     announce (e\<lparr>mNavMeshRequestStatus := kNavMeshRequestStarted,
                 mNavMeshVersion := pNavMeshVersion\<rparr>)"

definition handleNavMeshResult ::
  "LLSD \<Rightarrow> U32 \<Rightarrow> LLPathfindingNavMesh \<Rightarrow> LLPathfindingNavMesh" where
  "handleNavMeshResult pContent pNavMeshVersion e =
     announce (e\<lparr>mNavMeshRequestStatus := kNavMeshRequestCompleted,
                 mNavMeshVersion := pNavMeshVersion, mNavMeshData := pContent\<rparr>)"

definition handleNavMeshError ::
  "U32 \<Rightarrow> string \<Rightarrow> string \<Rightarrow> U32 \<Rightarrow> LLPathfindingNavMesh \<Rightarrow> LLPathfindingNavMesh" where
  "handleNavMeshError pStatus pReason pURL pNavMeshVersion e =
     announce (e\<lparr>mNavMeshRequestStatus := kNavMeshRequestError\<rparr>)"

definition handleNavMeshNotEnabled :: "LLPathfindingNavMesh \<Rightarrow> LLPathfindingNavMesh" where
  "handleNavMeshNotEnabled e = announce (e\<lparr>mNavMeshRequestStatus := kNavMeshRequestNotEnabled\<rparr>)"

text \<open>The spec gives the new-version signal no transition of the entry: the entry is
  invalidated "implicitly", by the manager's counter moving on.\<close>

definition handleNavMeshNewVersion :: "U32 \<Rightarrow> LLPathfindingNavMesh \<Rightarrow> LLPathfindingNavMesh" where
  "handleNavMeshNewVersion pNavMeshVersion e = e"

section \<open>LLPathfindingManager\<close>

definition LLPathfindingManager_new :: "LLViewerRegion option \<Rightarrow> bool \<Rightarrow> world" where
  "LLPathfindingManager_new region godlike =
     \<lparr>gAgent_getRegion = region, gAgent_isGodlike = godlike,
      mNavMeshMap = Map.empty, mNavMeshVersionXXX = 0, mAgentStateSignal = [],
      mAgentState = kAgentStateUnknown, mLastKnownNonErrorAgentState = kAgentStateUnknown,
      linksetsResponders = Map.empty, nextLinksetsResponder = 0, httpRequests = [],
      agentStateSignalled = [], linksetsCalls = [], failedAsserts = 0\<rparr>"

definition getCurrentRegion :: "world \<Rightarrow> LLViewerRegion option" where
  "getCurrentRegion w = gAgent_getRegion w"

text \<open>The warning written to the log for an empty capability is not modelled.\<close>

definition getCapabilityURLForRegion :: "LLViewerRegion option \<Rightarrow> string \<Rightarrow> string" where
  "getCapabilityURLForRegion pRegion pCapabilityName =
     (case pRegion of None \<Rightarrow> [] | Some region \<Rightarrow> getCapability region pCapabilityName)"

definition getCapabilityURLForCurrentRegion :: "world \<Rightarrow> string \<Rightarrow> string" where
  "getCapabilityURLForCurrentRegion w pCapabilityName =
     getCapabilityURLForRegion (getCurrentRegion w) pCapabilityName"

definition getRetrieveNavMeshURLForCurrentRegion :: "world \<Rightarrow> string" where
  "getRetrieveNavMeshURLForCurrentRegion w =
     getCapabilityURLForCurrentRegion w CAP_SERVICE_RETRIEVE_NAVMESH"

definition getRetrieveNavMeshURLForRegion :: "LLViewerRegion option \<Rightarrow> string" where
  "getRetrieveNavMeshURLForRegion pRegion =
     getCapabilityURLForRegion pRegion CAP_SERVICE_RETRIEVE_NAVMESH"

definition getAgentStateURLForCurrentRegion :: "world \<Rightarrow> string" where
  "getAgentStateURLForCurrentRegion w =
     getCapabilityURLForCurrentRegion w CAP_SERVICE_AGENT_STATE"

definition getObjectLinksetsURLForCurrentRegion :: "world \<Rightarrow> string" where
  "getObjectLinksetsURLForCurrentRegion w =
     getCapabilityURLForCurrentRegion w CAP_SERVICE_OBJECT_LINKSETS"

definition getTerrainLinksetsURLForCurrentRegion :: "world \<Rightarrow> string" where
  "getTerrainLinksetsURLForCurrentRegion w =
     getCapabilityURLForCurrentRegion w CAP_SERVICE_TERRAIN_LINKSETS"

definition isPathfindingEnabledForCurrentRegion :: "world \<Rightarrow> bool" where
  "isPathfindingEnabledForCurrentRegion w = (getRetrieveNavMeshURLForCurrentRegion w \<noteq> [])"

definition isAllowViewTerrainProperties :: "world \<Rightarrow> bool" where
  "isAllowViewTerrainProperties w =
     (gAgent_isGodlike w \<or>
      (case getCurrentRegion w of None \<Rightarrow> False | Some region \<Rightarrow> canManageEstate region))"

definition isValidAgentState :: "EAgentState \<Rightarrow> bool" where
  "isValidAgentState pAgentState =
     (pAgentState = kAgentStateFrozen \<or> pAgentState = kAgentStateUnfrozen)"

subsection \<open>Agent state\<close>

definition registerAgentStateListener :: "agent_state_callback_t \<Rightarrow> world \<Rightarrow> world" where
  "registerAgentStateListener pAgentStateCallback w =
     w\<lparr>mAgentStateSignal := mAgentStateSignal w @ [pAgentStateCallback]\<rparr>"

text \<open>\<open>mAgentStateSignal(mAgentState)\<close> calls every connected listener with the state; the
  invocation is recorded with the state and the listeners called.\<close>

definition setAgentState :: "EAgentState \<Rightarrow> world \<Rightarrow> world" where
  "setAgentState pAgentState w =
     (let w1 = w\<lparr>mAgentState := pAgentState\<rparr>;
          w2 = (if mAgentState w1 \<noteq> kAgentStateError
                then w1\<lparr>mLastKnownNonErrorAgentState := mAgentState w1\<rparr> else w1)
      in w2\<lparr>agentStateSignalled := agentStateSignalled w2 @
               [(mAgentState w2, mAgentStateSignal w2)]\<rparr>)"

definition requestGetAgentState :: "world \<Rightarrow> world" where
  "requestGetAgentState w =
     (let agentStateURL = getAgentStateURLForCurrentRegion w
      in if agentStateURL = [] then setAgentState kAgentStateNotEnabled w
         else w\<lparr>httpRequests := httpRequests w @
                  [HTTPGet agentStateURL
                     (AgentStateResponder agentStateURL kAgentStateUnknown)]\<rparr>)"

definition getAgentState :: "world \<Rightarrow> EAgentState \<times> world" where
  "getAgentState w =
     (let w1 = (if \<not> isPathfindingEnabledForCurrentRegion w
                then setAgentState kAgentStateNotEnabled w
                else if \<not> isValidAgentState (mAgentState w) then requestGetAgentState w
                else w)
      in (mAgentState w1, w1))"

definition getLastKnownNonErrorAgentState :: "world \<Rightarrow> EAgentState" where
  "getLastKnownNonErrorAgentState w = mLastKnownNonErrorAgentState w"

definition isAllowAlterPermanent :: "world \<Rightarrow> bool \<times> world" where
  "isAllowAlterPermanent w =
     (if \<not> isPathfindingEnabledForCurrentRegion w then (True, w)
      else (fst (getAgentState w) = kAgentStateUnfrozen, snd (getAgentState w)))"

definition requestSetAgentState :: "EAgentState \<Rightarrow> world \<Rightarrow> world" where
  "requestSetAgentState pRequestedAgentState w =
     (let w1 = llassert (isValidAgentState pRequestedAgentState) w;
          agentStateURL = getAgentStateURLForCurrentRegion w1
      in if agentStateURL = [] then setAgentState kAgentStateNotEnabled w1
         else
           let request0 = set_field LLSDUndefined ALTER_NAVMESH_OBJECTS_FIELD
                            (LLSDBoolean (pRequestedAgentState = kAgentStateUnfrozen));
               request = set_field request0 DEPRECATED_ALTER_NAVMESH_OBJECTS_FIELD
                            (LLSDBoolean (pRequestedAgentState = kAgentStateUnfrozen))
           in w1\<lparr>httpRequests := httpRequests w1 @
                    [HTTPPost agentStateURL request
                       (AgentStateResponder agentStateURL pRequestedAgentState)]\<rparr>)"

text \<open>The state a response body reports. \<open>DEPRECATED_ALTER_NAVMESH_OBJECTS_FIELD\<close> is
  defined, so the branch that also reads the deprecated field is the one compiled; the
  world returned carries the assertions the body violates.\<close>

definition decodeAgentState :: "LLSD \<Rightarrow> world \<Rightarrow> EAgentState \<times> world" where
  "decodeAgentState pContent w =
     (if has pContent ALTER_NAVMESH_OBJECTS_FIELD
      then
        (if asBoolean (get pContent ALTER_NAVMESH_OBJECTS_FIELD)
         then kAgentStateUnfrozen else kAgentStateFrozen,
         llassert (isBoolean (get pContent ALTER_NAVMESH_OBJECTS_FIELD)) w)
      else
        (if asBoolean (get pContent DEPRECATED_ALTER_NAVMESH_OBJECTS_FIELD)
         then kAgentStateUnfrozen else kAgentStateFrozen,
         llassert (isBoolean (get pContent DEPRECATED_ALTER_NAVMESH_OBJECTS_FIELD))
           (llassert (has pContent DEPRECATED_ALTER_NAVMESH_OBJECTS_FIELD) w)))"

definition handleAgentStateResult :: "LLSD \<Rightarrow> EAgentState \<Rightarrow> world \<Rightarrow> world" where
  "handleAgentStateResult pContent pRequestedAgentState w =
     (let agentState = fst (decodeAgentState pContent w);
          w1 = snd (decodeAgentState pContent w)
      in if isValidAgentState pRequestedAgentState \<and> agentState \<noteq> pRequestedAgentState
         then setAgentState kAgentStateError (llassert False w1)
         else setAgentState agentState w1)"

definition handleAgentStateError :: "U32 \<Rightarrow> string \<Rightarrow> string \<Rightarrow> world \<Rightarrow> world" where
  "handleAgentStateError pStatus pReason pURL w = setAgentState kAgentStateError w"

definition AgentStateResponder_result ::
  "string \<Rightarrow> EAgentState \<Rightarrow> LLSD \<Rightarrow> world \<Rightarrow> world" where
  "AgentStateResponder_result mCapabilityURL mRequestedAgentState pContent w =
     handleAgentStateResult pContent mRequestedAgentState w"

definition AgentStateResponder_error ::
  "string \<Rightarrow> EAgentState \<Rightarrow> U32 \<Rightarrow> string \<Rightarrow> world \<Rightarrow> world" where
  "AgentStateResponder_error mCapabilityURL mRequestedAgentState pStatus pReason w =
     handleAgentStateError pStatus pReason mCapabilityURL w"

subsection \<open>Navmesh cache\<close>

text \<open>An \<open>LLPathfindingNavMeshPtr\<close> is the key of the entry in \<open>mNavMeshMap\<close>: entries are
  never removed from the map, and a method called through the pointer changes the entry
  the map holds.\<close>

definition getNavMeshForRegion_UUID :: "LLUUID \<Rightarrow> world \<Rightarrow> LLUUID \<times> world" where
  "getNavMeshForRegion_UUID pRegionUUID w =
     (case mNavMeshMap w pRegionUUID of
        None \<Rightarrow>
          (pRegionUUID,
           w\<lparr>mNavMeshMap := (mNavMeshMap w)(pRegionUUID \<mapsto> LLPathfindingNavMesh_new pRegionUUID)\<rparr>)
      | Some e \<Rightarrow> (pRegionUUID, w))"

definition getNavMeshForRegion :: "LLViewerRegion option \<Rightarrow> world \<Rightarrow> LLUUID \<times> world" where
  "getNavMeshForRegion pRegion w =
     (let regionUUID = (case pRegion of None \<Rightarrow> LLUUID_null | Some region \<Rightarrow> getRegionID region)
      in getNavMeshForRegion_UUID regionUUID w)"

definition navMesh_call ::
  "LLUUID \<Rightarrow> (LLPathfindingNavMesh \<Rightarrow> LLPathfindingNavMesh) \<Rightarrow> world \<Rightarrow> world" where
  "navMesh_call navMeshPtr method w =
     (case mNavMeshMap w navMeshPtr of
        None \<Rightarrow> w
      | Some e \<Rightarrow> w\<lparr>mNavMeshMap := (mNavMeshMap w)(navMeshPtr \<mapsto> method e)\<rparr>)"

definition navMesh_hasNavMeshVersion :: "LLUUID \<Rightarrow> U32 \<Rightarrow> world \<Rightarrow> bool" where
  "navMesh_hasNavMeshVersion navMeshPtr pNavMeshVersion w =
     (case mNavMeshMap w navMeshPtr of
        None \<Rightarrow> False
      | Some e \<Rightarrow> hasNavMeshVersion e pNavMeshVersion)"

definition registerNavMeshListenerForRegion ::
  "LLViewerRegion option \<Rightarrow> navmesh_callback_t \<Rightarrow> world \<Rightarrow> world" where
  "registerNavMeshListenerForRegion pRegion pNavMeshCallback w =
     (let navMeshPtr = fst (getNavMeshForRegion pRegion w);
          w1 = snd (getNavMeshForRegion pRegion w)
      in navMesh_call navMeshPtr (registerNavMeshListener pNavMeshCallback) w1)"

definition requestGetNavMeshForRegion :: "LLViewerRegion option \<Rightarrow> world \<Rightarrow> world" where
  "requestGetNavMeshForRegion pRegion w =
     (let navMeshPtr = fst (getNavMeshForRegion pRegion w);
          w1 = snd (getNavMeshForRegion pRegion w)
      in if navMesh_hasNavMeshVersion navMeshPtr (mNavMeshVersionXXX w1) w1
         then navMesh_call navMeshPtr handleRefresh w1
         else if pRegion = None
         then navMesh_call navMeshPtr handleNavMeshNotEnabled w1
         else
           let navMeshURL = getRetrieveNavMeshURLForRegion pRegion
           in if navMeshURL = []
              then navMesh_call navMeshPtr handleNavMeshNotEnabled w1
              else
                let w2 = navMesh_call navMeshPtr (handleNavMeshStart (mNavMeshVersionXXX w1)) w1
                in w2\<lparr>httpRequests := httpRequests w2 @
                         [HTTPPost navMeshURL LLSDUndefined
                            (NavMeshResponder navMeshURL (mNavMeshVersionXXX w2) navMeshPtr)]\<rparr>)"

text \<open>\<open>++mNavMeshVersionXXX\<close> on a \<open>U32\<close>: the sum wraps at \<open>2 ^ 32\<close>. The version the
  simulator pushed, \<open>pNavMeshVersion\<close>, is not read.\<close>

definition handleNavMeshUpdate :: "LLUUID \<Rightarrow> U32 \<Rightarrow> world \<Rightarrow> world" where
  "handleNavMeshUpdate pRegionUUID pNavMeshVersion w =
     (let navMeshPtr = fst (getNavMeshForRegion_UUID pRegionUUID w);
          w1 = snd (getNavMeshForRegion_UUID pRegionUUID w);
          w2 = w1\<lparr>mNavMeshVersionXXX := mNavMeshVersionXXX w1 + 1\<rparr>
      in navMesh_call navMeshPtr (handleNavMeshNewVersion (mNavMeshVersionXXX w2)) w2)"

definition LLNavMeshSimStateChangeNode_post :: "world \<Rightarrow> fault + world" where
  "LLNavMeshSimStateChangeNode_post w =
     (case gAgent_getRegion w of
        None \<Rightarrow> Inl NullPointer
      | Some region \<Rightarrow> Inr (handleNavMeshUpdate (getRegionID region) 0 w))"

definition NavMeshResponder_result ::
  "string \<Rightarrow> U32 \<Rightarrow> LLUUID \<Rightarrow> LLSD \<Rightarrow> world \<Rightarrow> world" where
  "NavMeshResponder_result mCapabilityURL mNavMeshVersion' mNavMeshPtr pContent w =
     navMesh_call mNavMeshPtr (handleNavMeshResult pContent mNavMeshVersion') w"

definition NavMeshResponder_error ::
  "string \<Rightarrow> U32 \<Rightarrow> LLUUID \<Rightarrow> U32 \<Rightarrow> string \<Rightarrow> world \<Rightarrow> world" where
  "NavMeshResponder_error mCapabilityURL mNavMeshVersion' mNavMeshPtr pStatus pReason w =
     navMesh_call mNavMeshPtr
       (handleNavMeshError pStatus pReason mCapabilityURL mNavMeshVersion') w"

subsection \<open>Linksets\<close>

definition http_get :: "string \<Rightarrow> Responder \<Rightarrow> world \<Rightarrow> world" where
  "http_get url responder w = w\<lparr>httpRequests := httpRequests w @ [HTTPGet url responder]\<rparr>"

definition http_put :: "string \<Rightarrow> LLSD \<Rightarrow> Responder \<Rightarrow> world \<Rightarrow> world" where
  "http_put url body responder w =
     w\<lparr>httpRequests := httpRequests w @ [HTTPPut url body responder]\<rparr>"

definition requestGetLinksets ::
  "linksets_callback_t \<Rightarrow> world \<Rightarrow> ELinksetsRequestStatus \<times> world" where
  "requestGetLinksets pLinksetsCallback w =
     (let objectLinksetsURL = getObjectLinksetsURLForCurrentRegion w;
          terrainLinksetsURL = getTerrainLinksetsURLForCurrentRegion w
      in if objectLinksetsURL = [] \<or> terrainLinksetsURL = []
         then (kLinksetsRequestNotEnabled, w)
         else
           let doRequestTerrain = isAllowViewTerrainProperties w;
               linksetsResponderPtr =
                 fst (LinksetsResponder_new pLinksetsCallback True doRequestTerrain w);
               w1 = snd (LinksetsResponder_new pLinksetsCallback True doRequestTerrain w);
               w2 = http_get objectLinksetsURL
                      (ObjectLinksetsResponder objectLinksetsURL linksetsResponderPtr) w1;
               w3 = (if doRequestTerrain
                     then http_get terrainLinksetsURL
                            (TerrainLinksetsResponder terrainLinksetsURL linksetsResponderPtr) w2
                     else w2)
           in (kLinksetsRequestStarted, w3))"

text \<open>\<open>encodeObjectFields\<close> and \<open>encodeTerrainFields\<close> are methods of
  \<open>LLPathfindingLinksetList\<close> defined in llpathfindinglinksetlist.cpp, which is not among
  the sources: the model takes them as its first two arguments.\<close>

type_synonym encoder =
  "LLPathfindingLinksetList \<Rightarrow> ELinksetUse \<Rightarrow> S32 \<Rightarrow> S32 \<Rightarrow> S32 \<Rightarrow> S32 \<Rightarrow> LLSD"

definition requestSetLinksets ::
  "encoder \<Rightarrow> encoder \<Rightarrow> LLPathfindingLinksetList \<Rightarrow> ELinksetUse \<Rightarrow> S32 \<Rightarrow> S32 \<Rightarrow> S32 \<Rightarrow> S32 \<Rightarrow>
   linksets_callback_t \<Rightarrow> world \<Rightarrow> ELinksetsRequestStatus \<times> world" where
  "requestSetLinksets encodeObjectFields encodeTerrainFields
     pLinksetList pLinksetUse pA pB pC pD pLinksetsCallback w =
     (let objectLinksetsURL = getObjectLinksetsURLForCurrentRegion w;
          terrainLinksetsURL = getTerrainLinksetsURLForCurrentRegion w
      in if objectLinksetsURL = [] \<or> terrainLinksetsURL = []
         then (kLinksetsRequestNotEnabled, w)
         else
           let objectPostData = encodeObjectFields pLinksetList pLinksetUse pA pB pC pD;
               terrainPostData =
                 (if isAllowViewTerrainProperties w
                  then encodeTerrainFields pLinksetList pLinksetUse pA pB pC pD
                  else LLSDUndefined)
           in if isUndefined objectPostData \<and> isUndefined terrainPostData
              then (kLinksetsRequestCompleted, w)
              else
                let linksetsResponderPtr =
                      fst (LinksetsResponder_new pLinksetsCallback
                             (\<not> isUndefined objectPostData) (\<not> isUndefined terrainPostData) w);
                    w1 = snd (LinksetsResponder_new pLinksetsCallback
                             (\<not> isUndefined objectPostData) (\<not> isUndefined terrainPostData) w);
                    w2 = (if \<not> isUndefined objectPostData
                          then http_put objectLinksetsURL objectPostData
                                 (ObjectLinksetsResponder objectLinksetsURL linksetsResponderPtr) w1
                          else w1);
                    w3 = (if \<not> isUndefined terrainPostData
                          then http_put terrainLinksetsURL terrainPostData
                                 (TerrainLinksetsResponder terrainLinksetsURL linksetsResponderPtr) w2
                          else w2)
                in (kLinksetsRequestStarted, w3))"

section \<open>Calls into the manager\<close>

text \<open>Everything that can happen to the manager: a public method is called, the HTTP
  client completes a responder, the simulator pushes a navmesh status update, or the agent
  moves to another region (or gains or loses god mode). A completion names the responder
  it goes to by the responder's fields. A run performs calls in order and stops at the
  first fault.\<close>

datatype call =
  Call_isAllowAlterPermanent
| Call_registerNavMeshListenerForRegion "LLViewerRegion option" navmesh_callback_t
| Call_requestGetNavMeshForRegion "LLViewerRegion option"
| Call_registerAgentStateListener agent_state_callback_t
| Call_getAgentState
| Call_requestSetAgentState EAgentState
| Call_requestGetLinksets linksets_callback_t
| Call_requestSetLinksets encoder encoder LLPathfindingLinksetList ELinksetUse S32 S32 S32 S32
    linksets_callback_t
| Post_NavmeshStatusUpdate
| Result_NavMesh string U32 LLUUID LLSD
| Error_NavMesh string U32 LLUUID U32 string
| Result_AgentState string EAgentState LLSD
| Error_AgentState string EAgentState U32 string
| Complete_Linksets string string nat LinksetsCompletion
| Agent_moves "LLViewerRegion option" bool

fun perform :: "call \<Rightarrow> world \<Rightarrow> fault + world" where
  "perform Call_isAllowAlterPermanent w = Inr (snd (isAllowAlterPermanent w))"
| "perform (Call_registerNavMeshListenerForRegion pRegion cb) w =
     Inr (registerNavMeshListenerForRegion pRegion cb w)"
| "perform (Call_requestGetNavMeshForRegion pRegion) w = Inr (requestGetNavMeshForRegion pRegion w)"
| "perform (Call_registerAgentStateListener cb) w = Inr (registerAgentStateListener cb w)"
| "perform Call_getAgentState w = Inr (snd (getAgentState w))"
| "perform (Call_requestSetAgentState s) w = Inr (requestSetAgentState s w)"
| "perform (Call_requestGetLinksets cb) w = Inr (snd (requestGetLinksets cb w))"
| "perform (Call_requestSetLinksets eo et l u a b c d cb) w =
     Inr (snd (requestSetLinksets eo et l u a b c d cb w))"
| "perform Post_NavmeshStatusUpdate w = LLNavMeshSimStateChangeNode_post w"
| "perform (Result_NavMesh url v p content) w = Inr (NavMeshResponder_result url v p content w)"
| "perform (Error_NavMesh url v p st re) w = Inr (NavMeshResponder_error url v p st re w)"
| "perform (Result_AgentState url s content) w = Inr (AgentStateResponder_result url s content w)"
| "perform (Error_AgentState url s st re) w = Inr (AgentStateResponder_error url s st re w)"
| "perform (Complete_Linksets ou tu this e) w = complete ou tu this e w"
| "perform (Agent_moves region godlike) w =
     Inr (w\<lparr>gAgent_getRegion := region, gAgent_isGodlike := godlike\<rparr>)"

fun perform_all :: "call list \<Rightarrow> world \<Rightarrow> fault + world" where
  "perform_all [] w = Inr w"
| "perform_all (c # cs) w =
     (case perform c w of Inl f \<Rightarrow> Inl f | Inr w1 \<Rightarrow> perform_all cs w1)"

text \<open>The states the manager has been set to, oldest first: one per invocation of the
  agent state signal.\<close>

definition agentStatesSet :: "world \<Rightarrow> EAgentState list" where
  "agentStatesSet w = map fst (agentStateSignalled w)"

section \<open>Scenarios\<close>

text \<open>Concrete regions and encoders, for evaluating the model.\<close>

definition capabilities :: "(string \<times> string) list \<Rightarrow> string \<Rightarrow> string" where
  "capabilities table name = (case map_of table name of None \<Rightarrow> [] | Some url \<Rightarrow> url)"

text \<open>A pathfinding region with every capability, whose estate the agent manages.\<close>

definition region_full :: LLViewerRegion where
  "region_full =
     \<lparr>getRegionID = ''a1'', getName = ''Full'',
      getCapability = capabilities
        [(''RetrieveNavMeshSrc'', ''https://sim/navmesh''),
         (''AgentPreferences'', ''https://sim/agent''),
         (''ObjectNavMeshProperties'', ''https://sim/objects''),
         (''TerrainNavMeshProperties'', ''https://sim/terrain'')],
      canManageEstate = True\<rparr>"

text \<open>A region without pathfinding that still serves agent preferences.\<close>

definition region_plain :: LLViewerRegion where
  "region_plain =
     \<lparr>getRegionID = ''b2'', getName = ''Plain'',
      getCapability = capabilities [(''AgentPreferences'', ''https://sim/agent'')],
      canManageEstate = False\<rparr>"

text \<open>A pathfinding region that serves neither agent preferences nor terrain linksets.\<close>

definition region_partial :: LLViewerRegion where
  "region_partial =
     \<lparr>getRegionID = ''c3'', getName = ''Partial'',
      getCapability = capabilities
        [(''RetrieveNavMeshSrc'', ''https://sim/navmesh''),
         (''ObjectNavMeshProperties'', ''https://sim/objects'')],
      canManageEstate = False\<rparr>"

definition obj1 :: LLPathfindingLinkset where
  "obj1 = \<lparr>getUUID = ''obj1'', getLinksetUse = kWalkable,
           getA = 1, getB = 2, getC = 3, getD = 4\<rparr>"

definition terrain1 :: LLPathfindingLinkset where
  "terrain1 = \<lparr>getUUID = LLUUID_null, getLinksetUse = kStaticObstacle,
               getA = 0, getB = 0, getC = 0, getD = 0\<rparr>"

text \<open>An object linkset stored under the identifier \<open>terrain1\<close> carries.\<close>

definition obj_null :: LLPathfindingLinkset where
  "obj_null = \<lparr>getUUID = LLUUID_null, getLinksetUse = kWalkable,
               getA = 1, getB = 2, getC = 3, getD = 4\<rparr>"

text \<open>An encoder that finds nothing to send.\<close>

definition encode_nothing :: encoder where
  "encode_nothing l u a b c d = LLSDUndefined"

text \<open>A cache entry holding completed data of version \<open>v\<close>.\<close>

definition navmesh_completed :: "LLUUID \<Rightarrow> U32 \<Rightarrow> LLPathfindingNavMesh" where
  "navmesh_completed u v =
     (LLPathfindingNavMesh_new u)\<lparr>mNavMeshRequestStatus := kNavMeshRequestCompleted,
                                  mNavMeshVersion := v\<rparr>"

text \<open>A manager in \<open>region_full\<close> whose counter is \<open>v\<close> and whose cache holds completed
  data of version \<open>v\<close> for two regions, the first with a listener.\<close>

definition world_cached :: "U32 \<Rightarrow> world" where
  "world_cached v =
     (LLPathfindingManager_new (Some region_full) False)
       \<lparr>mNavMeshMap :=
          [''a1'' \<mapsto> (navmesh_completed ''a1'' v)\<lparr>mNavMeshSignal := [5]\<rparr>,
           ''b2'' \<mapsto> navmesh_completed ''b2'' v],
        mNavMeshVersionXXX := v\<rparr>"

text \<open>What a coordinator built for the sub-operations \<open>o'\<close> and \<open>t\<close> leaves behind once the
  completions \<open>es\<close> have been delivered and it has called back: one more callback invocation
  than in \<open>w\<close>, no violated assertion, each final state the one its completion gives
  (\<open>kNotRequested\<close> for a sub-operation that was not requested), neither state
  \<open>kWaiting\<close>, and a status that follows the two final states, so that it is
  \<open>kLinksetsRequestCompleted\<close> when no completion is an error and
  \<open>kLinksetsRequestError\<close> when one is.\<close>

definition fired_once ::
  "world \<Rightarrow> linksets_callback_t \<Rightarrow> nat \<Rightarrow> bool \<Rightarrow> bool \<Rightarrow> LinksetsCompletion list \<Rightarrow>
   world \<Rightarrow> bool" where
  "fired_once w cb this o' t es w' =
     (\<exists>status list r.
        linksetsCalls w' = linksetsCalls w @ [(cb, status, list)] \<and>
        failedAsserts w' = failedAsserts w \<and>
        linksetsResponders w' this = Some r \<and>
        (mObjectMessagingState r = kReceivedGood) = (\<exists>l. ObjectResult l \<in> set es) \<and>
        (mObjectMessagingState r = kReceivedError) = (\<exists>st re. ObjectError st re \<in> set es) \<and>
        (mObjectMessagingState r = kNotRequested) = (\<not> o') \<and>
        (mTerrainMessagingState r = kReceivedGood) = (\<exists>l. TerrainResult l \<in> set es) \<and>
        (mTerrainMessagingState r = kReceivedError) = (\<exists>st re. TerrainError st re \<in> set es) \<and>
        (mTerrainMessagingState r = kNotRequested) = (\<not> t) \<and>
        mObjectMessagingState r \<noteq> kWaiting \<and> mTerrainMessagingState r \<noteq> kWaiting \<and>
        (status = kLinksetsRequestCompleted) =
          ((mObjectMessagingState r = kReceivedGood \<or> mObjectMessagingState r = kNotRequested) \<and>
           (mTerrainMessagingState r = kReceivedGood \<or> mTerrainMessagingState r = kNotRequested)) \<and>
        (status = kLinksetsRequestCompleted) =
          (\<not> (\<exists>st re. ObjectError st re \<in> set es) \<and> \<not> (\<exists>st re. TerrainError st re \<in> set es)) \<and>
        (status = kLinksetsRequestError) =
          ((\<exists>st re. ObjectError st re \<in> set es) \<or> (\<exists>st re. TerrainError st re \<in> set es)))"

text \<open>Every coordinator in the store has at least one sub-operation requested.\<close>

definition some_requested :: "world \<Rightarrow> bool" where
  "some_requested w =
     (\<forall>p r. linksetsResponders w p = Some r \<longrightarrow>
        mObjectMessagingState r \<noteq> kNotRequested \<or> mTerrainMessagingState r \<noteq> kNotRequested)"

text \<open>The last state of a history that is not \<open>kAgentStateError\<close>, and
  \<open>kAgentStateUnknown\<close>, the state the constructor stores, for a history without one; and
  the invariant that ties \<open>mLastKnownNonErrorAgentState\<close> to the history.\<close>

definition lastNonError :: "EAgentState list \<Rightarrow> EAgentState" where
  "lastNonError ss = last (kAgentStateUnknown # filter (\<lambda>s. s \<noteq> kAgentStateError) ss)"

definition last_known_ok :: "world \<Rightarrow> bool" where
  "last_known_ok w = (mLastKnownNonErrorAgentState w = lastNonError (agentStatesSet w))"

section \<open>Theorems: the join coordinator\<close>

lemma terrain_not_object: "is_terrain_completion e = (\<not> is_object_completion e)"
  by (cases e) simp_all

lemma completes_once_length:
  assumes "completes_once o' t es"
  shows "length es = (if o' then 1 else 0) + (if t then 1 else 0)"
proof -
  have "length (filter is_object_completion es) + length (filter is_terrain_completion es) = length es"
    using sum_length_filter_compl [of is_object_completion es]
    by (simp add: terrain_not_object [abs_def])
  with assms show ?thesis
    unfolding completes_once_def by presburger
qed

lemma completes_once_both:
  assumes "completes_once True True es"
  shows "\<exists>a b. es = [a, b] \<and>
            ((is_object_completion a \<and> is_terrain_completion b) \<or>
             (is_terrain_completion a \<and> is_object_completion b))"
proof -
  from completes_once_length [OF assms] have "length es = 2" by simp
  then obtain a b where es: "es = [a, b]"
    by (metis (no_types) length_0_conv length_Suc_conv numeral_2_eq_2)
  from assms show ?thesis
    unfolding es completes_once_def by (simp add: terrain_not_object split: if_splits)
qed

lemma completes_once_object:
  assumes "completes_once True False es"
  shows "\<exists>a. es = [a] \<and> is_object_completion a"
proof -
  from completes_once_length [OF assms] have "length es = 1" by simp
  then obtain a where es: "es = [a]"
    by (metis (no_types) length_0_conv length_Suc_conv One_nat_def)
  from assms show ?thesis
    unfolding es completes_once_def by (simp split: if_splits)
qed

lemma completes_once_terrain:
  assumes "completes_once False True es"
  shows "\<exists>a. es = [a] \<and> is_terrain_completion a"
proof -
  from completes_once_length [OF assms] have "length es = 1" by simp
  then obtain a where es: "es = [a]"
    by (metis (no_types) length_0_conv length_Suc_conv One_nat_def)
  from assms show ?thesis
    unfolding es completes_once_def by (simp split: if_splits)
qed

lemma completes_once_none:
  assumes "completes_once False False es"
  shows "es = []"
  using completes_once_length [OF assms] by simp

lemmas linksets_defs =
  ObjectLinksetsResponder_result_def ObjectLinksetsResponder_error_def
  TerrainLinksetsResponder_result_def TerrainLinksetsResponder_error_def
  handleObjectLinksetsResult_def handleObjectLinksetsError_def
  handleTerrainLinksetsResult_def handleTerrainLinksetsError_def
  sendCallback_def invoke_callback_def requestStatus_of_def llassert_def
  LinksetsResponder_ctor_def

lemma first_of_two:
  assumes "linksetsResponders w this = Some (LinksetsResponder_ctor cb True True)"
  shows "\<exists>wn. complete ou tu this a w = Inr wn \<and> linksetsCalls wn = linksetsCalls w"
  using assms by (cases a) (simp_all add: linksets_defs Let_def)

lemma both_either_order:
  assumes "linksetsResponders w this = Some (LinksetsResponder_ctor cb True True)"
    and "(is_object_completion a \<and> is_terrain_completion b) \<or>
         (is_terrain_completion a \<and> is_object_completion b)"
  shows "\<exists>w'. complete_all ou tu this [a, b] w = Inr w' \<and>
           fired_once w cb this True True [a, b] w'"
  using assms unfolding fired_once_def
  by (cases a; cases b) (simp_all add: linksets_defs Let_def)

lemma only_object:
  assumes "linksetsResponders w this = Some (LinksetsResponder_ctor cb True False)"
    and "is_object_completion a"
  shows "\<exists>w'. complete_all ou tu this [a] w = Inr w' \<and> fired_once w cb this True False [a] w'"
  using assms unfolding fired_once_def
  by (cases a) (simp_all add: linksets_defs Let_def)

lemma only_terrain:
  assumes "linksetsResponders w this = Some (LinksetsResponder_ctor cb False True)"
    and "is_terrain_completion a"
  shows "\<exists>w'. complete_all ou tu this [a] w = Inr w' \<and> fired_once w cb this False True [a] w'"
  using assms unfolding fired_once_def
  by (cases a) (simp_all add: linksets_defs Let_def)

lemma fired_once_cases:
  assumes fresh: "linksetsResponders w this = Some (LinksetsResponder_ctor cb o' t)"
    and requested: "o' \<or> t"
    and once: "completes_once o' t es"
  shows "\<exists>w'. complete_all ou tu this es w = Inr w' \<and> fired_once w cb this o' t es w'"
proof -
  consider (both) "o'" "t" | (object) "o'" "\<not> t" | (terrain) "\<not> o'" "t"
    using requested by blast
  then show ?thesis
  proof cases
    case both
    with once fresh have o: "completes_once True True es"
      and n: "linksetsResponders w this = Some (LinksetsResponder_ctor cb True True)" by simp_all
    from completes_once_both [OF o] both_either_order [OF n] both show ?thesis by auto
  next
    case object
    with once fresh have o: "completes_once True False es"
      and n: "linksetsResponders w this = Some (LinksetsResponder_ctor cb True False)" by simp_all
    from completes_once_object [OF o] only_object [OF n] object show ?thesis by auto
  next
    case terrain
    with once fresh have o: "completes_once False True es"
      and n: "linksetsResponders w this = Some (LinksetsResponder_ctor cb False True)" by simp_all
    from completes_once_terrain [OF o] only_terrain [OF n] terrain show ?thesis by auto
  qed
qed

lemma not_before_the_last:
  assumes fresh: "linksetsResponders w this = Some (LinksetsResponder_ctor cb o' t)"
    and once: "completes_once o' t es"
    and n: "n < length es"
  shows "\<exists>wn. complete_all ou tu this (take n es) w = Inr wn \<and> linksetsCalls wn = linksetsCalls w"
proof (cases n)
  case 0
  then show ?thesis by simp
next
  case (Suc m)
  with n completes_once_length [OF once] have both: "o'" "t" and n1: "n = 1"
    by (auto split: if_splits)
  from both fresh have nw: "linksetsResponders w this = Some (LinksetsResponder_ctor cb True True)"
    by simp
  from n obtain a es1 where es: "es = a # es1" by (cases es) auto
  from first_of_two [OF nw, of ou tu a] show ?thesis
    unfolding es n1 by auto
qed

lemma requestGetLinksets_started:
  assumes "getObjectLinksetsURLForCurrentRegion w \<noteq> []"
    and "getTerrainLinksetsURLForCurrentRegion w \<noteq> []"
  shows "fst (requestGetLinksets cb w) = kLinksetsRequestStarted"
    and "linksetsResponders (snd (requestGetLinksets cb w)) (nextLinksetsResponder w) =
           Some (LinksetsResponder_ctor cb True (isAllowViewTerrainProperties w))"
    and "linksetsCalls (snd (requestGetLinksets cb w)) = linksetsCalls w"
  using assms
  by (simp_all add: requestGetLinksets_def Let_def LinksetsResponder_new_def http_get_def)

lemma region_full_linksets:
  "getObjectLinksetsURLForCurrentRegion (LLPathfindingManager_new (Some region_full) g) \<noteq> []"
  "getTerrainLinksetsURLForCurrentRegion (LLPathfindingManager_new (Some region_full) g) \<noteq> []"
  "isAllowViewTerrainProperties (LLPathfindingManager_new (Some region_full) g)"
  by (simp_all add: getObjectLinksetsURLForCurrentRegion_def
      getTerrainLinksetsURLForCurrentRegion_def getCapabilityURLForCurrentRegion_def
      getCapabilityURLForRegion_def getCurrentRegion_def LLPathfindingManager_new_def
      region_full_def capabilities_def CAP_SERVICE_OBJECT_LINKSETS_def
      CAP_SERVICE_TERRAIN_LINKSETS_def isAllowViewTerrainProperties_def)

lemma region_full_requestGetLinksets:
  "linksetsResponders (snd (requestGetLinksets cb (LLPathfindingManager_new (Some region_full) g))) 0 =
     Some (LinksetsResponder_ctor cb True True)"
  "linksetsCalls (snd (requestGetLinksets cb (LLPathfindingManager_new (Some region_full) g))) = []"
  using requestGetLinksets_started(2,3)
      [OF region_full_linksets(1) [of g] region_full_linksets(2) [of g], of cb]
    region_full_linksets(3) [of g]
  by (simp_all add: LLPathfindingManager_new_def)


subsection \<open>Every coordinator the manager builds has a sub-operation requested\<close>

lemma some_requested_frame:
  assumes "some_requested w" and "linksetsResponders w' = linksetsResponders w"
  shows "some_requested w'"
  using assms by (simp add: some_requested_def)

lemma some_requested_new: "some_requested (LLPathfindingManager_new region godlike)"
  by (simp add: some_requested_def LLPathfindingManager_new_def)

lemma some_requested_store:
  assumes "some_requested w"
    and "mObjectMessagingState r \<noteq> kNotRequested \<or> mTerrainMessagingState r \<noteq> kNotRequested"
    and "linksetsResponders w' = (linksetsResponders w)(p \<mapsto> r)"
  shows "some_requested w'"
  using assms by (auto simp: some_requested_def)

lemma setAgentState_store: "linksetsResponders (setAgentState s w) = linksetsResponders w"
  by (simp add: setAgentState_def Let_def)

lemma llassert_store: "linksetsResponders (llassert b w) = linksetsResponders w"
  by (simp add: llassert_def)

lemma agent_store:
  "linksetsResponders (requestGetAgentState w) = linksetsResponders w"
  "linksetsResponders (snd (getAgentState w)) = linksetsResponders w"
  "linksetsResponders (snd (isAllowAlterPermanent w)) = linksetsResponders w"
  "linksetsResponders (requestSetAgentState s w) = linksetsResponders w"
  "linksetsResponders (registerAgentStateListener cb w) = linksetsResponders w"
  "linksetsResponders (AgentStateResponder_result url s content w) = linksetsResponders w"
  "linksetsResponders (AgentStateResponder_error url s st re w) = linksetsResponders w"
  by (simp_all add: requestGetAgentState_def getAgentState_def isAllowAlterPermanent_def
      requestSetAgentState_def registerAgentStateListener_def AgentStateResponder_result_def
      AgentStateResponder_error_def handleAgentStateResult_def handleAgentStateError_def
      decodeAgentState_def Let_def setAgentState_store llassert_store)

lemma navMesh_call_store: "linksetsResponders (navMesh_call p m w) = linksetsResponders w"
  by (simp add: navMesh_call_def split: option.splits)

lemma getNavMeshForRegion_UUID_store:
  "linksetsResponders (snd (getNavMeshForRegion_UUID u w)) = linksetsResponders w"
  by (simp add: getNavMeshForRegion_UUID_def split: option.splits)

lemma navmesh_store:
  "linksetsResponders (registerNavMeshListenerForRegion r cb w) = linksetsResponders w"
  "linksetsResponders (requestGetNavMeshForRegion r w) = linksetsResponders w"
  "linksetsResponders (handleNavMeshUpdate u v w) = linksetsResponders w"
  "linksetsResponders (NavMeshResponder_result url v u c w) = linksetsResponders w"
  "linksetsResponders (NavMeshResponder_error url v u st re w) = linksetsResponders w"
  by (simp_all add: registerNavMeshListenerForRegion_def requestGetNavMeshForRegion_def
      handleNavMeshUpdate_def NavMeshResponder_result_def NavMeshResponder_error_def
      getNavMeshForRegion_def Let_def navMesh_call_store getNavMeshForRegion_UUID_store)

lemma some_requested_requestGetLinksets:
  assumes "some_requested w"
  shows "some_requested (snd (requestGetLinksets cb w))"
  using assms
  by (auto simp: requestGetLinksets_def Let_def LinksetsResponder_new_def http_get_def
      LinksetsResponder_ctor_def some_requested_def)

lemma some_requested_requestSetLinksets:
  assumes "some_requested w"
  shows "some_requested (snd (requestSetLinksets eo et l u a b c d cb w))"
  using assms
  by (auto simp: requestSetLinksets_def Let_def LinksetsResponder_new_def http_put_def
      LinksetsResponder_ctor_def some_requested_def)

lemma some_requested_sendCallback:
  assumes "some_requested w" and "sendCallback this w = Inr w'"
  shows "some_requested w'"
proof -
  from assms(2) obtain r where r: "linksetsResponders w this = Some r"
    by (auto simp: sendCallback_def split: option.splits)
  with assms(1) have req: "mObjectMessagingState r \<noteq> kNotRequested \<or>
      mTerrainMessagingState r \<noteq> kNotRequested"
    by (auto simp: some_requested_def)
  from assms(2) r obtain r' where
    "linksetsResponders w' = (linksetsResponders w)(this \<mapsto> r')"
    "mObjectMessagingState r' = mObjectMessagingState r"
    "mTerrainMessagingState r' = mTerrainMessagingState r"
    by (auto simp: sendCallback_def invoke_callback_def llassert_def Let_def
        split: option.splits if_splits)
  with req show ?thesis
    by (intro some_requested_store [OF assms(1)]) auto
qed

lemma some_requested_complete:
  assumes inv: "some_requested w" and step: "complete ou tu this e w = Inr w'"
  shows "some_requested w'"
proof -
  have stored: "some_requested (w\<lparr>linksetsResponders := (linksetsResponders w)(this \<mapsto> r)\<rparr>)"
    if "mObjectMessagingState r \<noteq> kNotRequested \<or> mTerrainMessagingState r \<noteq> kNotRequested"
    for r
    using that by (intro some_requested_store [OF inv]) auto
  from step show ?thesis
    by (cases e)
       (auto simp: ObjectLinksetsResponder_result_def ObjectLinksetsResponder_error_def
          TerrainLinksetsResponder_result_def TerrainLinksetsResponder_error_def
          handleObjectLinksetsResult_def handleObjectLinksetsError_def
          handleTerrainLinksetsResult_def handleTerrainLinksetsError_def Let_def
          split: option.splits if_splits
          intro!: stored elim!: some_requested_sendCallback [rotated])
qed

lemma some_requested_perform:
  assumes inv: "some_requested w" and step: "perform c w = Inr w'"
  shows "some_requested w'"
proof (cases c)
  case (Call_requestGetLinksets cb)
  with step inv show ?thesis by (auto simp: some_requested_requestGetLinksets)
next
  case (Call_requestSetLinksets eo et l u a b c d cb)
  with step inv show ?thesis by (auto simp: some_requested_requestSetLinksets)
next
  case Post_NavmeshStatusUpdate
  with step some_requested_frame [OF inv navmesh_store(3)] show ?thesis
    by (auto simp: LLNavMeshSimStateChangeNode_post_def split: option.splits)
next
  case (Complete_Linksets ou tu this e)
  with step some_requested_complete [OF inv] show ?thesis by auto
next
  case (Agent_moves region godlike)
  with step some_requested_frame [OF inv, of w'] show ?thesis by auto
qed (use step some_requested_frame [OF inv] in \<open>auto simp: agent_store navmesh_store\<close>)

lemma some_requested_perform_all:
  assumes "some_requested w" and "perform_all cs w = Inr w'"
  shows "some_requested w'"
  using assms
proof (induction cs arbitrary: w)
  case Nil
  then show ?case by simp
next
  case (Cons c cs)
  from Cons.prems(2) obtain w1 where s: "perform c w = Inr w1" and r: "perform_all cs w1 = Inr w'"
    by (auto split: sum.splits)
  from Cons.IH [OF some_requested_perform [OF Cons.prems(1) s] r] show ?case .
qed

lemma built_requested:
  assumes run: "perform_all cs (LLPathfindingManager_new region godlike) = Inr w"
    and fresh: "linksetsResponders w this = Some (LinksetsResponder_ctor cb o' t)"
  shows "o' \<or> t"
proof -
  from some_requested_perform_all [OF some_requested_new run]
  have "linksetsResponders w this = Some (LinksetsResponder_ctor cb o' t) \<longrightarrow>
      mObjectMessagingState (LinksetsResponder_ctor cb o' t) \<noteq> kNotRequested \<or>
      mTerrainMessagingState (LinksetsResponder_ctor cb o' t) \<noteq> kNotRequested"
    unfolding some_requested_def by blast
  with fresh show ?thesis
    by (simp add: LinksetsResponder_ctor_def split: if_splits)
qed

lemma callback_once_requested:
  assumes fresh: "linksetsResponders w this =
                    Some (LinksetsResponder_ctor pLinksetsCallback pIsObjectRequested
                            pIsTerrainRequested)"
    and requested: "pIsObjectRequested \<or> pIsTerrainRequested"
    and once: "completes_once pIsObjectRequested pIsTerrainRequested es"
  shows "(\<exists>w' status list r.
            complete_all ou tu this es w = Inr w' \<and>
            linksetsCalls w' = linksetsCalls w @ [(pLinksetsCallback, status, list)] \<and>
            linksetsResponders w' this = Some r \<and>
            (pIsObjectRequested \<longrightarrow>
               mObjectMessagingState r = kReceivedGood \<or> mObjectMessagingState r = kReceivedError) \<and>
            (pIsTerrainRequested \<longrightarrow>
               mTerrainMessagingState r = kReceivedGood \<or> mTerrainMessagingState r = kReceivedError)) \<and>
         (\<forall>n<length es. \<exists>wn.
            complete_all ou tu this (take n es) w = Inr wn \<and>
            linksetsCalls wn = linksetsCalls w)"
proof -
  from fired_once_cases [OF fresh requested once, of ou tu] obtain w' status list r where
    run: "complete_all ou tu this es w = Inr w'"
    and calls: "linksetsCalls w' = linksetsCalls w @ [(pLinksetsCallback, status, list)]"
    and r: "linksetsResponders w' this = Some r"
    and ob: "(mObjectMessagingState r = kNotRequested) = (\<not> pIsObjectRequested)"
      "mObjectMessagingState r \<noteq> kWaiting"
    and te: "(mTerrainMessagingState r = kNotRequested) = (\<not> pIsTerrainRequested)"
      "mTerrainMessagingState r \<noteq> kWaiting"
    unfolding fired_once_def by blast
  from ob have ob': "pIsObjectRequested \<longrightarrow>
      mObjectMessagingState r = kReceivedGood \<or> mObjectMessagingState r = kReceivedError"
    by (cases "mObjectMessagingState r") simp_all
  from te have te': "pIsTerrainRequested \<longrightarrow>
      mTerrainMessagingState r = kReceivedGood \<or> mTerrainMessagingState r = kReceivedError"
    by (cases "mTerrainMessagingState r") simp_all
  from not_before_the_last [OF fresh once, of _ ou tu]
  have before: "\<forall>n<length es. \<exists>wn.
      complete_all ou tu this (take n es) w = Inr wn \<and> linksetsCalls wn = linksetsCalls w"
    by blast
  from run calls r ob' te' before show ?thesis by blast
qed

text \<open>
  Claim C1. In every world the manager reaches from its constructor (by any calls of its
  methods, completions of its responders, pushed status updates and moves of the agent), a
  coordinator as its constructor left it has at least one of the object and terrain
  sub-operations requested. When each requested sub-operation is then completed once (by a
  result or by an error, in either order), the run of the completions ends without a
  fault, the joined callback has been invoked exactly once, every requested sub-operation
  is in \<open>kReceivedGood\<close> or \<open>kReceivedError\<close>, and after any proper prefix of the
  completions the callback has not been invoked yet.
\<close>

theorem callback_exactly_once:
  assumes run: "perform_all cs (LLPathfindingManager_new region godlike) = Inr w"
    and fresh: "linksetsResponders w this =
                  Some (LinksetsResponder_ctor pLinksetsCallback pIsObjectRequested
                          pIsTerrainRequested)"
    and once: "completes_once pIsObjectRequested pIsTerrainRequested es"
  shows "(pIsObjectRequested \<or> pIsTerrainRequested) \<and>
         (\<exists>w' status list r.
            complete_all ou tu this es w = Inr w' \<and>
            linksetsCalls w' = linksetsCalls w @ [(pLinksetsCallback, status, list)] \<and>
            linksetsResponders w' this = Some r \<and>
            (pIsObjectRequested \<longrightarrow>
               mObjectMessagingState r = kReceivedGood \<or> mObjectMessagingState r = kReceivedError) \<and>
            (pIsTerrainRequested \<longrightarrow>
               mTerrainMessagingState r = kReceivedGood \<or> mTerrainMessagingState r = kReceivedError)) \<and>
         (\<forall>n<length es. \<exists>wn.
            complete_all ou tu this (take n es) w = Inr wn \<and>
            linksetsCalls wn = linksetsCalls w)"
proof -
  have requested: "pIsObjectRequested \<or> pIsTerrainRequested"
    by (rule built_requested [OF run fresh])
  from callback_once_requested [OF fresh requested once, of ou tu] requested
  show ?thesis by (rule conjI [rotated])
qed

text \<open>
  Claim C1, witness: the coordinator \<open>requestGetLinksets\<close> builds in a region with every
  capability, terrain failing first and the objects arriving second.
\<close>

theorem callback_exactly_once_witness:
  "perform_all [Call_requestGetLinksets 7] (LLPathfindingManager_new (Some region_full) False) =
     Inr (snd (requestGetLinksets 7 (LLPathfindingManager_new (Some region_full) False))) \<and>
   linksetsResponders
     (snd (requestGetLinksets 7 (LLPathfindingManager_new (Some region_full) False))) 0 =
     Some (LinksetsResponder_ctor 7 True True) \<and>
   completes_once True True
     [TerrainError 500 ''Internal Server Error'', ObjectResult [''obj1'' \<mapsto> obj1]] \<and>
   (\<exists>w' status list.
      complete_all ''https://sim/objects'' ''https://sim/terrain'' 0
        [TerrainError 500 ''Internal Server Error'', ObjectResult [''obj1'' \<mapsto> obj1]]
        (snd (requestGetLinksets 7 (LLPathfindingManager_new (Some region_full) False))) = Inr w' \<and>
      linksetsCalls w' = [(7, status, list)]) \<and>
   (\<exists>wn.
      complete_all ''https://sim/objects'' ''https://sim/terrain'' 0
        [TerrainError 500 ''Internal Server Error'']
        (snd (requestGetLinksets 7 (LLPathfindingManager_new (Some region_full) False))) = Inr wn \<and>
      linksetsCalls wn = [])"
proof -
  let ?init = "LLPathfindingManager_new (Some region_full) False"
  let ?w = "snd (requestGetLinksets 7 ?init)"
  let ?es = "[TerrainError 500 ''Internal Server Error'', ObjectResult [''obj1'' \<mapsto> obj1]]"
  have run: "perform_all [Call_requestGetLinksets 7] ?init = Inr ?w"
    by simp
  note fresh = region_full_requestGetLinksets(1) [of 7 False]
  note calls = region_full_requestGetLinksets(2) [of 7 False]
  have once: "completes_once True True ?es"
    by (simp add: completes_once_def)
  note t = callback_exactly_once [OF run fresh once,
      of "''https://sim/objects''" "''https://sim/terrain''"]
  from t [THEN conjunct2, THEN conjunct1] calls
  have fired: "\<exists>w' status list.
      complete_all ''https://sim/objects'' ''https://sim/terrain'' 0 ?es ?w = Inr w' \<and>
      linksetsCalls w' = [(7, status, list)]"
    by auto
  from t [THEN conjunct2, THEN conjunct2, rule_format, of 1] calls
  have before: "\<exists>wn.
      complete_all ''https://sim/objects'' ''https://sim/terrain'' 0
        [TerrainError 500 ''Internal Server Error''] ?w = Inr wn \<and>
      linksetsCalls wn = []"
    by simp
  show ?thesis
    by (intro conjI) (rule run fresh once fired before)+
qed


text \<open>
  Claim C2. For a coordinator built with at least one sub-operation requested, each
  requested sub-operation completed once in any order, the joined callback is invoked with
  a status that is \<open>kLinksetsRequestCompleted\<close> exactly when the final state of each
  sub-operation is \<open>kReceivedGood\<close> or \<open>kNotRequested\<close>, and \<open>kLinksetsRequestError\<close> in
  every other combination of final states. The final states are the ones the completions
  give: \<open>kReceivedGood\<close> after a result, \<open>kReceivedError\<close> after an error and
  \<open>kNotRequested\<close> for a sub-operation that was not requested; so the status is
  \<open>kLinksetsRequestCompleted\<close> exactly when no completion is an error.
\<close>

theorem joined_status:
  assumes fresh: "linksetsResponders w this =
                    Some (LinksetsResponder_ctor pLinksetsCallback pIsObjectRequested
                            pIsTerrainRequested)"
    and requested: "pIsObjectRequested \<or> pIsTerrainRequested"
    and once: "completes_once pIsObjectRequested pIsTerrainRequested es"
  shows "\<exists>w' status list r.
           complete_all ou tu this es w = Inr w' \<and>
           linksetsCalls w' = linksetsCalls w @ [(pLinksetsCallback, status, list)] \<and>
           linksetsResponders w' this = Some r \<and>
           (status = kLinksetsRequestCompleted) =
             ((mObjectMessagingState r = kReceivedGood \<or> mObjectMessagingState r = kNotRequested) \<and>
              (mTerrainMessagingState r = kReceivedGood \<or> mTerrainMessagingState r = kNotRequested)) \<and>
           (status = kLinksetsRequestError) =
             (\<not> ((mObjectMessagingState r = kReceivedGood \<or> mObjectMessagingState r = kNotRequested) \<and>
                 (mTerrainMessagingState r = kReceivedGood \<or> mTerrainMessagingState r = kNotRequested))) \<and>
           (mObjectMessagingState r = kReceivedGood) = (\<exists>l. ObjectResult l \<in> set es) \<and>
           (mObjectMessagingState r = kReceivedError) = (\<exists>st re. ObjectError st re \<in> set es) \<and>
           (mObjectMessagingState r = kNotRequested) = (\<not> pIsObjectRequested) \<and>
           (mTerrainMessagingState r = kReceivedGood) = (\<exists>l. TerrainResult l \<in> set es) \<and>
           (mTerrainMessagingState r = kReceivedError) = (\<exists>st re. TerrainError st re \<in> set es) \<and>
           (mTerrainMessagingState r = kNotRequested) = (\<not> pIsTerrainRequested) \<and>
           (status = kLinksetsRequestCompleted) =
             (\<not> (\<exists>st re. ObjectError st re \<in> set es) \<and>
              \<not> (\<exists>st re. TerrainError st re \<in> set es))"
proof -
  from fired_once_cases [OF fresh requested once, of ou tu] obtain w' status list r where
    run: "complete_all ou tu this es w = Inr w'"
    and calls: "linksetsCalls w' = linksetsCalls w @ [(pLinksetsCallback, status, list)]"
    and r: "linksetsResponders w' this = Some r"
    and states:
      "(mObjectMessagingState r = kReceivedGood) = (\<exists>l. ObjectResult l \<in> set es)"
      "(mObjectMessagingState r = kReceivedError) = (\<exists>st re. ObjectError st re \<in> set es)"
      "(mObjectMessagingState r = kNotRequested) = (\<not> pIsObjectRequested)"
      "(mTerrainMessagingState r = kReceivedGood) = (\<exists>l. TerrainResult l \<in> set es)"
      "(mTerrainMessagingState r = kReceivedError) = (\<exists>st re. TerrainError st re \<in> set es)"
      "(mTerrainMessagingState r = kNotRequested) = (\<not> pIsTerrainRequested)"
    and iff: "(status = kLinksetsRequestCompleted) =
          ((mObjectMessagingState r = kReceivedGood \<or> mObjectMessagingState r = kNotRequested) \<and>
           (mTerrainMessagingState r = kReceivedGood \<or> mTerrainMessagingState r = kNotRequested))"
    and ok: "(status = kLinksetsRequestCompleted) =
          (\<not> (\<exists>st re. ObjectError st re \<in> set es) \<and> \<not> (\<exists>st re. TerrainError st re \<in> set es))"
    and err: "(status = kLinksetsRequestError) =
          ((\<exists>st re. ObjectError st re \<in> set es) \<or> (\<exists>st re. TerrainError st re \<in> set es))"
    unfolding fired_once_def by blast
  from iff ok err have iff': "(status = kLinksetsRequestError) =
      (\<not> ((mObjectMessagingState r = kReceivedGood \<or> mObjectMessagingState r = kNotRequested) \<and>
          (mTerrainMessagingState r = kReceivedGood \<or> mTerrainMessagingState r = kNotRequested)))"
    by blast
  show ?thesis
    by (intro exI conjI) (rule run calls r iff iff' states ok)+
qed

text \<open>
  Claim C2, witness: for the coordinator \<open>requestGetLinksets\<close> builds in a region with
  every capability, objects and terrain both arriving gives \<open>kLinksetsRequestCompleted\<close>,
  and the objects arriving with the terrain failing gives \<open>kLinksetsRequestError\<close>.
\<close>

theorem joined_status_witness:
  "completes_once True True [ObjectResult [''obj1'' \<mapsto> obj1], TerrainResult terrain1] \<and>
   (\<exists>w' list.
      complete_all ''https://sim/objects'' ''https://sim/terrain'' 0
        [ObjectResult [''obj1'' \<mapsto> obj1], TerrainResult terrain1]
        (snd (requestGetLinksets 7 (LLPathfindingManager_new (Some region_full) False))) = Inr w' \<and>
      linksetsCalls w' = [(7, kLinksetsRequestCompleted, list)]) \<and>
   completes_once True True
     [ObjectResult [''obj1'' \<mapsto> obj1], TerrainError 500 ''Internal Server Error''] \<and>
   (\<exists>w' list.
      complete_all ''https://sim/objects'' ''https://sim/terrain'' 0
        [ObjectResult [''obj1'' \<mapsto> obj1], TerrainError 500 ''Internal Server Error'']
        (snd (requestGetLinksets 7 (LLPathfindingManager_new (Some region_full) False))) = Inr w' \<and>
      linksetsCalls w' = [(7, kLinksetsRequestError, list)])"
proof -
  let ?w = "snd (requestGetLinksets 7 (LLPathfindingManager_new (Some region_full) False))"
  let ?good = "[ObjectResult [''obj1'' \<mapsto> obj1], TerrainResult terrain1]"
  let ?bad = "[ObjectResult [''obj1'' \<mapsto> obj1], TerrainError 500 ''Internal Server Error'']"
  note fresh = region_full_requestGetLinksets(1) [of 7 False]
  note calls = region_full_requestGetLinksets(2) [of 7 False]
  have once: "completes_once True True ?good" "completes_once True True ?bad"
    by (simp_all add: completes_once_def)
  from joined_status [OF fresh disjI1 [OF TrueI] once(1),
      where ou = "''https://sim/objects''" and tu = "''https://sim/terrain''"] calls
  have good: "\<exists>w' list.
      complete_all ''https://sim/objects'' ''https://sim/terrain'' 0 ?good ?w = Inr w' \<and>
      linksetsCalls w' = [(7, kLinksetsRequestCompleted, list)]"
    by auto
  from joined_status [OF fresh disjI1 [OF TrueI] once(2),
      where ou = "''https://sim/objects''" and tu = "''https://sim/terrain''"] calls
  have bad: "\<exists>w' list.
      complete_all ''https://sim/objects'' ''https://sim/terrain'' 0 ?bad ?w = Inr w' \<and>
      linksetsCalls w' = [(7, kLinksetsRequestError, list)]"
    by auto
  show ?thesis
    by (intro conjI) (rule once good bad)+
qed

text \<open>
  Claim C3, as amended. For a coordinator with the terrain requested: when the objects
  succeed with the list \<open>l\<close> and the terrain fails, in either order, the callback is invoked
  once, with \<open>kLinksetsRequestError\<close> and exactly \<open>l\<close>. When the terrain succeeds with the
  linkset \<open>t\<close>, the callback is invoked once, with the object list (the empty list when the
  objects failed or were not requested) to which \<open>t\<close> has been added under \<open>t\<close>'s own
  identifier, unless the object list already holds an entry under that identifier: then
  the list is handed over as the objects gave it, without \<open>t\<close>.
\<close>

theorem partial_failure_and_merge:
  assumes fresh: "linksetsResponders w this =
                    Some (LinksetsResponder_ctor pLinksetsCallback pIsObjectRequested True)"
  shows
    "(pIsObjectRequested \<and>
        (es = [ObjectResult l, TerrainError st re] \<or> es = [TerrainError st re, ObjectResult l]) \<longrightarrow>
      (\<exists>w'. complete_all ou tu this es w = Inr w' \<and>
         linksetsCalls w' = linksetsCalls w @ [(pLinksetsCallback, kLinksetsRequestError, Some l)])) \<and>
     (pIsObjectRequested \<and>
        (es = [ObjectResult l, TerrainResult t] \<or> es = [TerrainResult t, ObjectResult l]) \<longrightarrow>
      (\<exists>w'. complete_all ou tu this es w = Inr w' \<and>
         linksetsCalls w' = linksetsCalls w @
           [(pLinksetsCallback, kLinksetsRequestCompleted,
             Some (if l (getUUID t) = None then l(getUUID t \<mapsto> t) else l))])) \<and>
     (pIsObjectRequested \<and>
        (es = [ObjectError st re, TerrainResult t] \<or> es = [TerrainResult t, ObjectError st re]) \<longrightarrow>
      (\<exists>w'. complete_all ou tu this es w = Inr w' \<and>
         linksetsCalls w' = linksetsCalls w @
           [(pLinksetsCallback, kLinksetsRequestError, Some [getUUID t \<mapsto> t])])) \<and>
     (\<not> pIsObjectRequested \<and> es = [TerrainResult t] \<longrightarrow>
      (\<exists>w'. complete_all ou tu this es w = Inr w' \<and>
         linksetsCalls w' = linksetsCalls w @
           [(pLinksetsCallback, kLinksetsRequestCompleted, Some [getUUID t \<mapsto> t])]))"
  using fresh by (auto simp: linksets_defs Let_def LinksetList_insert_def)

text \<open>
  Claim C3, witness: the scenario of the spec. In a region with every capability
  \<open>requestGetLinksets\<close> is called, the object request succeeds with \<open>obj1\<close> and the terrain
  request fails with status 500: the callback is invoked once, with
  \<open>kLinksetsRequestError\<close> and the list holding \<open>obj1\<close> alone. When the terrain request
  succeeds instead, the list holds \<open>obj1\<close> and the terrain's linkset.
\<close>

theorem partial_failure_and_merge_witness:
  "(\<exists>w'. complete_all ''https://sim/objects'' ''https://sim/terrain'' 0
           [ObjectResult [''obj1'' \<mapsto> obj1], TerrainError 500 ''Internal Server Error'']
           (snd (requestGetLinksets 7 (LLPathfindingManager_new (Some region_full) False))) = Inr w' \<and>
         linksetsCalls w' = [(7, kLinksetsRequestError, Some [''obj1'' \<mapsto> obj1])]) \<and>
   (\<exists>w'. complete_all ''https://sim/objects'' ''https://sim/terrain'' 0
           [TerrainResult terrain1, ObjectResult [''obj1'' \<mapsto> obj1]]
           (snd (requestGetLinksets 7 (LLPathfindingManager_new (Some region_full) False))) = Inr w' \<and>
         linksetsCalls w' =
           [(7, kLinksetsRequestCompleted, Some [''obj1'' \<mapsto> obj1, LLUUID_null \<mapsto> terrain1])])"
proof -
  note fresh = region_full_requestGetLinksets(1) [of 7 False]
  note calls = region_full_requestGetLinksets(2) [of 7 False]
  have absent: "[''obj1'' \<mapsto> obj1] (getUUID terrain1) = None" "getUUID terrain1 = LLUUID_null"
    by (simp_all add: terrain1_def LLUUID_null_def)
  from partial_failure_and_merge [OF fresh,
      where es = "[ObjectResult [''obj1'' \<mapsto> obj1], TerrainError 500 ''Internal Server Error'']"
        and l = "[''obj1'' \<mapsto> obj1]" and st = 500 and re = "''Internal Server Error''"
        and ou = "''https://sim/objects''" and tu = "''https://sim/terrain''",
      THEN conjunct1] calls
  have failed: "\<exists>w'. complete_all ''https://sim/objects'' ''https://sim/terrain'' 0
           [ObjectResult [''obj1'' \<mapsto> obj1], TerrainError 500 ''Internal Server Error'']
           (snd (requestGetLinksets 7 (LLPathfindingManager_new (Some region_full) False))) = Inr w' \<and>
         linksetsCalls w' = [(7, kLinksetsRequestError, Some [''obj1'' \<mapsto> obj1])]"
    by simp
  from partial_failure_and_merge [OF fresh,
      where es = "[TerrainResult terrain1, ObjectResult [''obj1'' \<mapsto> obj1]]"
        and l = "[''obj1'' \<mapsto> obj1]" and t = terrain1
        and ou = "''https://sim/objects''" and tu = "''https://sim/terrain''",
      THEN conjunct2, THEN conjunct1] calls absent
  have merged: "\<exists>w'. complete_all ''https://sim/objects'' ''https://sim/terrain'' 0
           [TerrainResult terrain1, ObjectResult [''obj1'' \<mapsto> obj1]]
           (snd (requestGetLinksets 7 (LLPathfindingManager_new (Some region_full) False))) = Inr w' \<and>
         linksetsCalls w' =
           [(7, kLinksetsRequestCompleted, Some [''obj1'' \<mapsto> obj1, LLUUID_null \<mapsto> terrain1])]"
    by simp
  show ?thesis
    by (intro conjI) (rule failed merged)+
qed

text \<open>
  Claim C3, counterexample to the claim as stated ("for every join where terrain
  succeeds"): the object list arrives with an entry under the identifier the terrain's
  linkset carries, and the terrain request succeeds. The list handed to the callback holds
  the object's entry under that identifier; the terrain's linkset is not in it.
\<close>

theorem terrain_not_inserted_counterexample:
  "getUUID terrain1 = LLUUID_null \<and>
   obj_null \<noteq> terrain1 \<and>
   linksetsResponders
     (snd (requestGetLinksets 7 (LLPathfindingManager_new (Some region_full) False))) 0 =
     Some (LinksetsResponder_ctor 7 True True) \<and>
   map_sum id linksetsCalls
     (complete_all ''https://sim/objects'' ''https://sim/terrain'' 0
        [ObjectResult [LLUUID_null \<mapsto> obj_null], TerrainResult terrain1]
        (snd (requestGetLinksets 7 (LLPathfindingManager_new (Some region_full) False)))) =
     Inr [(7, kLinksetsRequestCompleted, Some [LLUUID_null \<mapsto> obj_null])]"
proof -
  have a: "getUUID terrain1 = LLUUID_null" "obj_null \<noteq> terrain1"
    by (simp_all add: terrain1_def obj_null_def)
  note fresh = region_full_requestGetLinksets(1) [of 7 False]
  note calls = region_full_requestGetLinksets(2) [of 7 False]
  from fresh calls a(1)
  have "map_sum id linksetsCalls
     (complete_all ''https://sim/objects'' ''https://sim/terrain'' 0
        [ObjectResult [LLUUID_null \<mapsto> obj_null], TerrainResult terrain1]
        (snd (requestGetLinksets 7 (LLPathfindingManager_new (Some region_full) False)))) =
     Inr [(7, kLinksetsRequestCompleted, Some [LLUUID_null \<mapsto> obj_null])]"
    by (simp add: linksets_defs Let_def LinksetList_insert_def)
  with a fresh show ?thesis by (intro conjI)
qed

section \<open>Theorems: the agent state\<close>

lemma setAgentState_fields:
  "mAgentState (setAgentState s w) = s"
  "mLastKnownNonErrorAgentState (setAgentState s w) =
     (if s = kAgentStateError then mLastKnownNonErrorAgentState w else s)"
  "agentStateSignalled (setAgentState s w) = agentStateSignalled w @ [(s, mAgentStateSignal w)]"
  "httpRequests (setAgentState s w) = httpRequests w"
  "gAgent_getRegion (setAgentState s w) = gAgent_getRegion w"
  by (simp_all add: setAgentState_def Let_def)

lemma decodeAgentState_world: "fst (decodeAgentState content w) = fst (decodeAgentState content w')"
  by (simp add: decodeAgentState_def)

lemma decodeAgentState_examples:
  "fst (decodeAgentState (LLSDMap [(''alter_navmesh_objects'', LLSDBoolean True)]) w) =
     kAgentStateUnfrozen"
  "fst (decodeAgentState (LLSDMap [(''alter_navmesh_objects'', LLSDBoolean False)]) w) =
     kAgentStateFrozen"
  "fst (decodeAgentState (LLSDMap [(''alter_permanent_objects'', LLSDBoolean True)]) w) =
     kAgentStateUnfrozen"
  "fst (decodeAgentState (LLSDMap [(''alter_permanent_objects'', LLSDBoolean False)]) w) =
     kAgentStateFrozen"
  "fst (decodeAgentState
         (LLSDMap [(''alter_permanent_objects'', LLSDBoolean True),
                   (''alter_navmesh_objects'', LLSDBoolean False)]) w) = kAgentStateFrozen"
  by (simp_all add: decodeAgentState_def ALTER_NAVMESH_OBJECTS_FIELD_def
      DEPRECATED_ALTER_NAVMESH_OBJECTS_FIELD_def)

lemma decodeAgentState_region:
  "gAgent_getRegion (snd (decodeAgentState content w)) = gAgent_getRegion w"
  by (simp add: decodeAgentState_def llassert_def)

lemma handleAgentStateResult_state:
  "mAgentState (handleAgentStateResult content T w) =
     (if isValidAgentState T \<and> fst (decodeAgentState content w) \<noteq> T
      then kAgentStateError else fst (decodeAgentState content w))"
  by (simp add: handleAgentStateResult_def Let_def setAgentState_fields)

lemma handleAgentStateResult_region:
  "gAgent_getRegion (handleAgentStateResult content T w) = gAgent_getRegion w"
  by (simp add: handleAgentStateResult_def Let_def setAgentState_fields decodeAgentState_region
      llassert_def)

lemma enabled_region:
  "gAgent_getRegion w' = gAgent_getRegion w \<Longrightarrow>
   isPathfindingEnabledForCurrentRegion w' = isPathfindingEnabledForCurrentRegion w"
  by (simp add: isPathfindingEnabledForCurrentRegion_def getRetrieveNavMeshURLForCurrentRegion_def
      getCapabilityURLForCurrentRegion_def getCurrentRegion_def)

text \<open>
  Claim C4, as amended. For a target \<open>T\<close> that is \<open>kAgentStateFrozen\<close> or
  \<open>kAgentStateUnfrozen\<close>, in a region that serves the agent state capability:
  \<open>requestSetAgentState T\<close> posts the boolean \<open>T = kAgentStateUnfrozen\<close> with a responder
  tagged \<open>T\<close>; whenever that responder receives a result, the agent state becomes \<open>T\<close> if
  the state decoded from the body is \<open>T\<close> and \<open>kAgentStateError\<close> if it is not; and after a
  matching result \<open>getAgentState\<close> returns \<open>T\<close> provided pathfinding is enabled for the
  current region.
\<close>

theorem set_agent_state_response:
  assumes valid: "isValidAgentState T"
    and url: "getAgentStateURLForCurrentRegion w = agentStateURL" "agentStateURL \<noteq> []"
  shows "(\<exists>request.
            httpRequests (requestSetAgentState T w) =
              httpRequests w @
                [HTTPPost agentStateURL request (AgentStateResponder agentStateURL T)] \<and>
            get request ALTER_NAVMESH_OBJECTS_FIELD = LLSDBoolean (T = kAgentStateUnfrozen)) \<and>
         (\<forall>pContent w1.
            mAgentState (AgentStateResponder_result agentStateURL T pContent w1) =
              (if fst (decodeAgentState pContent w1) = T then T else kAgentStateError)) \<and>
         (\<forall>pContent w1.
            fst (decodeAgentState pContent w1) = T \<and> isPathfindingEnabledForCurrentRegion w1 \<longrightarrow>
            fst (getAgentState (AgentStateResponder_result agentStateURL T pContent w1)) = T)"
proof -
  have post: "\<exists>request.
            httpRequests (requestSetAgentState T w) =
              httpRequests w @
                [HTTPPost agentStateURL request (AgentStateResponder agentStateURL T)] \<and>
            get request ALTER_NAVMESH_OBJECTS_FIELD = LLSDBoolean (T = kAgentStateUnfrozen)"
    using valid url
    by (simp add: requestSetAgentState_def Let_def llassert_def
        getAgentStateURLForCurrentRegion_def getCapabilityURLForCurrentRegion_def
        getCurrentRegion_def ALTER_NAVMESH_OBJECTS_FIELD_def
        DEPRECATED_ALTER_NAVMESH_OBJECTS_FIELD_def)
  have result: "mAgentState (AgentStateResponder_result agentStateURL T pContent w1) =
      (if fst (decodeAgentState pContent w1) = T then T else kAgentStateError)" for pContent w1
    using valid by (simp add: AgentStateResponder_result_def handleAgentStateResult_state)
  have after: "fst (getAgentState (AgentStateResponder_result agentStateURL T pContent w1)) = T"
    if "fst (decodeAgentState pContent w1) = T" "isPathfindingEnabledForCurrentRegion w1"
    for pContent w1
  proof -
    let ?w2 = "AgentStateResponder_result agentStateURL T pContent w1"
    have "isPathfindingEnabledForCurrentRegion ?w2"
      using that(2) enabled_region [of ?w2 w1]
      by (simp add: AgentStateResponder_result_def handleAgentStateResult_region)
    moreover have "mAgentState ?w2 = T" using result that(1) by simp
    ultimately show ?thesis using valid by (simp add: getAgentState_def Let_def)
  qed
  from post result after show ?thesis by blast
qed


lemmas url_defs =
  getAgentStateURLForCurrentRegion_def getObjectLinksetsURLForCurrentRegion_def
  getTerrainLinksetsURLForCurrentRegion_def getRetrieveNavMeshURLForCurrentRegion_def
  getRetrieveNavMeshURLForRegion_def isPathfindingEnabledForCurrentRegion_def
  isAllowViewTerrainProperties_def
  getCapabilityURLForCurrentRegion_def getCapabilityURLForRegion_def getCurrentRegion_def
  CAP_SERVICE_RETRIEVE_NAVMESH_def CAP_SERVICE_AGENT_STATE_def
  CAP_SERVICE_OBJECT_LINKSETS_def CAP_SERVICE_TERRAIN_LINKSETS_def

lemmas scenario_defs =
  LLPathfindingManager_new_def region_full_def region_plain_def region_partial_def
  capabilities_def

lemmas agent_defs =
  requestSetAgentState_def requestGetAgentState_def getAgentState_def setAgentState_def
  AgentStateResponder_result_def handleAgentStateResult_def decodeAgentState_def
  isValidAgentState_def llassert_def ALTER_NAVMESH_OBJECTS_FIELD_def
  DEPRECATED_ALTER_NAVMESH_OBJECTS_FIELD_def

text \<open>
  Claim C4, witness: in a region with every capability \<open>requestSetAgentState\<close> is called
  with \<open>kAgentStateUnfrozen\<close> and the simulator answers \<open>alter_navmesh_objects: true\<close>.
\<close>

theorem set_agent_state_response_witness:
  "isValidAgentState kAgentStateUnfrozen \<and>
   getAgentStateURLForCurrentRegion (LLPathfindingManager_new (Some region_full) False)
     = ''https://sim/agent'' \<and>
   mAgentState
     (AgentStateResponder_result ''https://sim/agent'' kAgentStateUnfrozen
        (LLSDMap [(''alter_navmesh_objects'', LLSDBoolean True)])
        (requestSetAgentState kAgentStateUnfrozen
           (LLPathfindingManager_new (Some region_full) False))) = kAgentStateUnfrozen \<and>
   fst (getAgentState
     (AgentStateResponder_result ''https://sim/agent'' kAgentStateUnfrozen
        (LLSDMap [(''alter_navmesh_objects'', LLSDBoolean True)])
        (requestSetAgentState kAgentStateUnfrozen
           (LLPathfindingManager_new (Some region_full) False)))) = kAgentStateUnfrozen"
proof -
  let ?w = "LLPathfindingManager_new (Some region_full) False"
  let ?w1 = "requestSetAgentState kAgentStateUnfrozen ?w"
  let ?c = "LLSDMap [(''alter_navmesh_objects'', LLSDBoolean True)]"
  have valid: "isValidAgentState kAgentStateUnfrozen"
    by (simp add: isValidAgentState_def)
  have url: "getAgentStateURLForCurrentRegion ?w = ''https://sim/agent''"
    by (simp add: url_defs scenario_defs)
  have nonempty: "''https://sim/agent'' \<noteq> []" by simp
  have decoded: "fst (decodeAgentState ?c ?w1) = kAgentStateUnfrozen"
    by (simp add: decodeAgentState_def ALTER_NAVMESH_OBJECTS_FIELD_def)
  have enabled: "isPathfindingEnabledForCurrentRegion ?w1"
    by (simp add: url_defs scenario_defs agent_defs Let_def)
  from set_agent_state_response [OF valid url nonempty] valid url decoded enabled
  show ?thesis by simp
qed

text \<open>
  Claim C4, counterexample to the claim as stated ("so getAgentState() == T"): a region
  that serves agent preferences but no navmesh. The request is posted, the matching
  response sets the state to \<open>kAgentStateUnfrozen\<close>, and \<open>getAgentState\<close>, finding
  pathfinding disabled for the region, forces \<open>kAgentStateNotEnabled\<close> and returns it.
\<close>

theorem get_agent_state_after_set_counterexample:
  "httpRequests (requestSetAgentState kAgentStateUnfrozen
       (LLPathfindingManager_new (Some region_plain) False)) =
     [HTTPPost ''https://sim/agent''
        (LLSDMap [(''alter_permanent_objects'', LLSDBoolean True),
                  (''alter_navmesh_objects'', LLSDBoolean True)])
        (AgentStateResponder ''https://sim/agent'' kAgentStateUnfrozen)] \<and>
   mAgentState
     (AgentStateResponder_result ''https://sim/agent'' kAgentStateUnfrozen
        (LLSDMap [(''alter_navmesh_objects'', LLSDBoolean True)])
        (requestSetAgentState kAgentStateUnfrozen
           (LLPathfindingManager_new (Some region_plain) False))) = kAgentStateUnfrozen \<and>
   fst (getAgentState
     (AgentStateResponder_result ''https://sim/agent'' kAgentStateUnfrozen
        (LLSDMap [(''alter_navmesh_objects'', LLSDBoolean True)])
        (requestSetAgentState kAgentStateUnfrozen
           (LLPathfindingManager_new (Some region_plain) False)))) = kAgentStateNotEnabled"
  by (simp add: url_defs scenario_defs agent_defs Let_def)

text \<open>
  Claim C8, as amended. \<open>getAgentState\<close> with pathfinding disabled for the current region
  sets the state to \<open>kAgentStateNotEnabled\<close> and returns it. With pathfinding enabled and a
  state other than \<open>kAgentStateFrozen\<close> and \<open>kAgentStateUnfrozen\<close>: where the region serves
  the agent state capability, one GET is handed to the HTTP client and the state held
  before the call is returned, unchanged; where it does not, no request is made, the state
  is set to \<open>kAgentStateNotEnabled\<close> and that is returned. With a state of
  \<open>kAgentStateFrozen\<close> or \<open>kAgentStateUnfrozen\<close> the state is returned and nothing else
  happens.
\<close>

theorem getAgentState_cases:
  "(\<not> isPathfindingEnabledForCurrentRegion w \<longrightarrow>
      getAgentState w = (kAgentStateNotEnabled, setAgentState kAgentStateNotEnabled w)) \<and>
   (isPathfindingEnabledForCurrentRegion w \<and> \<not> isValidAgentState (mAgentState w) \<and>
    getAgentStateURLForCurrentRegion w \<noteq> [] \<longrightarrow>
      getAgentState w =
        (mAgentState w,
         w\<lparr>httpRequests := httpRequests w @
              [HTTPGet (getAgentStateURLForCurrentRegion w)
                 (AgentStateResponder (getAgentStateURLForCurrentRegion w)
                    kAgentStateUnknown)]\<rparr>)) \<and>
   (isPathfindingEnabledForCurrentRegion w \<and> \<not> isValidAgentState (mAgentState w) \<and>
    getAgentStateURLForCurrentRegion w = [] \<longrightarrow>
      getAgentState w = (kAgentStateNotEnabled, setAgentState kAgentStateNotEnabled w) \<and>
      httpRequests (snd (getAgentState w)) = httpRequests w) \<and>
   (isPathfindingEnabledForCurrentRegion w \<and> isValidAgentState (mAgentState w) \<longrightarrow>
      getAgentState w = (mAgentState w, w))"
  by (simp add: getAgentState_def requestGetAgentState_def Let_def setAgentState_fields)

text \<open>
  Claim C8, witness: a fresh manager in a region with every capability asks for the state
  and returns \<open>kAgentStateUnknown\<close> at once.
\<close>

theorem getAgentState_cases_witness:
  "isPathfindingEnabledForCurrentRegion (LLPathfindingManager_new (Some region_full) False) \<and>
   \<not> isValidAgentState (mAgentState (LLPathfindingManager_new (Some region_full) False)) \<and>
   getAgentStateURLForCurrentRegion (LLPathfindingManager_new (Some region_full) False) \<noteq> [] \<and>
   fst (getAgentState (LLPathfindingManager_new (Some region_full) False)) = kAgentStateUnknown \<and>
   httpRequests (snd (getAgentState (LLPathfindingManager_new (Some region_full) False))) =
     [HTTPGet ''https://sim/agent'' (AgentStateResponder ''https://sim/agent'' kAgentStateUnknown)]"
proof -
  let ?w = "LLPathfindingManager_new (Some region_full) False"
  have enabled: "isPathfindingEnabledForCurrentRegion ?w"
    by (simp add: url_defs scenario_defs)
  have invalid: "\<not> isValidAgentState (mAgentState ?w)"
    by (simp add: isValidAgentState_def scenario_defs)
  have url: "getAgentStateURLForCurrentRegion ?w = ''https://sim/agent''"
    by (simp add: url_defs scenario_defs)
  have fields: "mAgentState ?w = kAgentStateUnknown" "httpRequests ?w = []"
    by (simp_all add: scenario_defs)
  from getAgentState_cases [of ?w] enabled invalid url fields
  show ?thesis by simp
qed

text \<open>
  Claim C8, counterexample to the claim as stated: pathfinding is enabled for the region
  and the state is \<open>kAgentStateUnknown\<close>, but the region does not serve the agent state
  capability. No GET is issued, and the value returned is not the one held before the call.
\<close>

theorem getAgentState_no_request_counterexample:
  "isPathfindingEnabledForCurrentRegion (LLPathfindingManager_new (Some region_partial) False) \<and>
   mAgentState (LLPathfindingManager_new (Some region_partial) False) = kAgentStateUnknown \<and>
   fst (getAgentState (LLPathfindingManager_new (Some region_partial) False))
     = kAgentStateNotEnabled \<and>
   httpRequests (snd (getAgentState (LLPathfindingManager_new (Some region_partial) False))) = []"
  by (simp add: url_defs scenario_defs agent_defs Let_def)

section \<open>Theorems: the history of agent states\<close>

lemma lastNonError_snoc:
  "lastNonError (ss @ [s]) = (if s = kAgentStateError then lastNonError ss else s)"
  by (simp add: lastNonError_def)

lemma lastNonError_not_error: "lastNonError ss \<noteq> kAgentStateError"
proof -
  have "lastNonError ss \<in> set (kAgentStateUnknown # filter (\<lambda>s. s \<noteq> kAgentStateError) ss)"
    unfolding lastNonError_def by (rule last_in_set) simp
  then show ?thesis by auto
qed

lemma last_known_ok_frame:
  assumes "last_known_ok w"
    and "mLastKnownNonErrorAgentState w' = mLastKnownNonErrorAgentState w"
    and "agentStateSignalled w' = agentStateSignalled w"
  shows "last_known_ok w'"
  using assms by (simp add: last_known_ok_def agentStatesSet_def)

lemma last_known_ok_setAgentState:
  "last_known_ok w \<Longrightarrow> last_known_ok (setAgentState s w)"
  by (simp add: last_known_ok_def agentStatesSet_def setAgentState_fields lastNonError_snoc)

lemma last_known_ok_llassert: "last_known_ok w \<Longrightarrow> last_known_ok (llassert b w)"
  by (simp add: llassert_def last_known_ok_def agentStatesSet_def)

lemma last_known_ok_httpRequests:
  "last_known_ok w \<Longrightarrow> last_known_ok (w\<lparr>httpRequests := rs\<rparr>)"
  by (rule last_known_ok_frame) simp_all

lemma last_known_ok_decode:
  "last_known_ok w \<Longrightarrow> last_known_ok (snd (decodeAgentState content w))"
  by (simp add: decodeAgentState_def last_known_ok_llassert)

lemma last_known_ok_requestGetAgentState:
  "last_known_ok w \<Longrightarrow> last_known_ok (requestGetAgentState w)"
  by (simp add: requestGetAgentState_def Let_def last_known_ok_setAgentState
      last_known_ok_httpRequests)

lemma last_known_ok_getAgentState:
  "last_known_ok w \<Longrightarrow> last_known_ok (snd (getAgentState w))"
  by (simp add: getAgentState_def Let_def last_known_ok_setAgentState
      last_known_ok_requestGetAgentState)

lemma last_known_ok_requestSetAgentState:
  "last_known_ok w \<Longrightarrow> last_known_ok (requestSetAgentState s w)"
  by (simp add: requestSetAgentState_def Let_def last_known_ok_setAgentState
      last_known_ok_httpRequests last_known_ok_llassert)

lemma last_known_ok_handleAgentStateResult:
  "last_known_ok w \<Longrightarrow> last_known_ok (handleAgentStateResult content s w)"
  by (simp add: handleAgentStateResult_def Let_def last_known_ok_setAgentState
      last_known_ok_decode last_known_ok_llassert)

lemma navMesh_call_agent:
  "mLastKnownNonErrorAgentState (navMesh_call p m w) = mLastKnownNonErrorAgentState w"
  "agentStateSignalled (navMesh_call p m w) = agentStateSignalled w"
  by (simp_all add: navMesh_call_def split: option.splits)

lemma getNavMeshForRegion_UUID_agent:
  "mLastKnownNonErrorAgentState (snd (getNavMeshForRegion_UUID u w)) = mLastKnownNonErrorAgentState w"
  "agentStateSignalled (snd (getNavMeshForRegion_UUID u w)) = agentStateSignalled w"
  by (simp_all add: getNavMeshForRegion_UUID_def split: option.splits)

lemma navmesh_agent:
  "mLastKnownNonErrorAgentState (registerNavMeshListenerForRegion r cb w) = mLastKnownNonErrorAgentState w"
  "agentStateSignalled (registerNavMeshListenerForRegion r cb w) = agentStateSignalled w"
  "mLastKnownNonErrorAgentState (requestGetNavMeshForRegion r w) = mLastKnownNonErrorAgentState w"
  "agentStateSignalled (requestGetNavMeshForRegion r w) = agentStateSignalled w"
  "mLastKnownNonErrorAgentState (handleNavMeshUpdate u v w) = mLastKnownNonErrorAgentState w"
  "agentStateSignalled (handleNavMeshUpdate u v w) = agentStateSignalled w"
  "mLastKnownNonErrorAgentState (NavMeshResponder_result url v u c w) = mLastKnownNonErrorAgentState w"
  "agentStateSignalled (NavMeshResponder_result url v u c w) = agentStateSignalled w"
  "mLastKnownNonErrorAgentState (NavMeshResponder_error url v u st re w) = mLastKnownNonErrorAgentState w"
  "agentStateSignalled (NavMeshResponder_error url v u st re w) = agentStateSignalled w"
  by (simp_all add: registerNavMeshListenerForRegion_def requestGetNavMeshForRegion_def
      handleNavMeshUpdate_def NavMeshResponder_result_def NavMeshResponder_error_def
      getNavMeshForRegion_def Let_def navMesh_call_agent getNavMeshForRegion_UUID_agent)

lemma linksets_request_agent:
  "mLastKnownNonErrorAgentState (snd (requestGetLinksets cb w)) = mLastKnownNonErrorAgentState w"
  "agentStateSignalled (snd (requestGetLinksets cb w)) = agentStateSignalled w"
  "mLastKnownNonErrorAgentState (snd (requestSetLinksets eo et l u a b c d cb w)) =
     mLastKnownNonErrorAgentState w"
  "agentStateSignalled (snd (requestSetLinksets eo et l u a b c d cb w)) = agentStateSignalled w"
  by (simp_all add: requestGetLinksets_def requestSetLinksets_def Let_def
      LinksetsResponder_new_def http_get_def http_put_def)

lemma sendCallback_agent:
  assumes "sendCallback this w = Inr w'"
  shows "mLastKnownNonErrorAgentState w' = mLastKnownNonErrorAgentState w \<and>
         agentStateSignalled w' = agentStateSignalled w"
  using assms
  by (auto simp: sendCallback_def invoke_callback_def llassert_def Let_def
      split: option.splits if_splits)

lemma complete_agent:
  assumes "complete ou tu this e w = Inr w'"
  shows "mLastKnownNonErrorAgentState w' = mLastKnownNonErrorAgentState w \<and>
         agentStateSignalled w' = agentStateSignalled w"
  using assms
  by (cases e)
     (auto simp: ObjectLinksetsResponder_result_def ObjectLinksetsResponder_error_def
        TerrainLinksetsResponder_result_def TerrainLinksetsResponder_error_def
        handleObjectLinksetsResult_def handleObjectLinksetsError_def
        handleTerrainLinksetsResult_def handleTerrainLinksetsError_def Let_def
        split: option.splits if_splits dest!: sendCallback_agent)

lemma perform_last_known_ok:
  assumes inv: "last_known_ok w" and step: "perform c w = Inr w'"
  shows "last_known_ok w'"
proof (cases c)
  case Call_isAllowAlterPermanent
  with step inv show ?thesis
    by (auto simp: isAllowAlterPermanent_def last_known_ok_getAgentState)
next
  case (Call_registerNavMeshListenerForRegion r cb)
  with step last_known_ok_frame [OF inv navmesh_agent(1,2)] show ?thesis by auto
next
  case (Call_requestGetNavMeshForRegion r)
  with step last_known_ok_frame [OF inv navmesh_agent(3,4)] show ?thesis by auto
next
  case (Call_registerAgentStateListener cb)
  with step last_known_ok_frame [OF inv, of "registerAgentStateListener cb w"] show ?thesis
    by (auto simp: registerAgentStateListener_def)
next
  case Call_getAgentState
  with step inv show ?thesis by (auto simp: last_known_ok_getAgentState)
next
  case (Call_requestSetAgentState s)
  with step inv show ?thesis by (auto simp: last_known_ok_requestSetAgentState)
next
  case (Call_requestGetLinksets cb)
  with step last_known_ok_frame [OF inv linksets_request_agent(1,2)] show ?thesis by auto
next
  case (Call_requestSetLinksets eo et l u a b c d cb)
  with step last_known_ok_frame [OF inv linksets_request_agent(3,4)] show ?thesis by auto
next
  case Post_NavmeshStatusUpdate
  with step last_known_ok_frame [OF inv navmesh_agent(5,6)] show ?thesis
    by (auto simp: LLNavMeshSimStateChangeNode_post_def split: option.splits)
next
  case (Result_NavMesh url v p content)
  with step last_known_ok_frame [OF inv navmesh_agent(7,8)] show ?thesis by auto
next
  case (Error_NavMesh url v p st re)
  with step last_known_ok_frame [OF inv navmesh_agent(9,10)] show ?thesis by auto
next
  case (Result_AgentState url s content)
  with step inv show ?thesis
    by (auto simp: AgentStateResponder_result_def last_known_ok_handleAgentStateResult)
next
  case (Error_AgentState url s st re)
  with step inv show ?thesis
    by (auto simp: AgentStateResponder_error_def handleAgentStateError_def
        last_known_ok_setAgentState)
next
  case (Complete_Linksets ou tu this e)
  with step complete_agent [of ou tu this e w w'] last_known_ok_frame [OF inv, of w']
  show ?thesis by auto
next
  case (Agent_moves region godlike)
  with step last_known_ok_frame [OF inv, of w'] show ?thesis by auto
qed

lemma perform_all_last_known_ok:
  assumes "last_known_ok w" and "perform_all cs w = Inr w'"
  shows "last_known_ok w'"
  using assms
proof (induction cs arbitrary: w)
  case Nil
  then show ?case by simp
next
  case (Cons c cs)
  from Cons.prems(2) obtain w1 where s: "perform c w = Inr w1" and r: "perform_all cs w1 = Inr w'"
    by (auto split: sum.splits)
  from Cons.IH [OF perform_last_known_ok [OF Cons.prems(1) s] r] show ?case .
qed

lemma last_known_ok_new: "last_known_ok (LLPathfindingManager_new region godlike)"
  by (simp add: last_known_ok_def LLPathfindingManager_new_def agentStatesSet_def
      lastNonError_def)

text \<open>
  Claim C9. Every call of \<open>setAgentState\<close> invokes the agent state signal once, with the
  new state and every listener registered at that moment, and stores the new state;
  \<open>getLastKnownNonErrorAgentState\<close> takes the new state unless it is \<open>kAgentStateError\<close>,
  in which case it keeps its value. In every world the manager reaches from its
  constructor, by any calls of its methods, completions of its responders, pushed status
  updates and moves of the agent, \<open>getLastKnownNonErrorAgentState\<close> returns the last state
  set that was not \<open>kAgentStateError\<close> (\<open>kAgentStateUnknown\<close>, the constructor's value,
  before the first such state), and it never returns \<open>kAgentStateError\<close>.
\<close>

theorem agent_state_broadcast_and_last_known:
  assumes run: "perform_all cs (LLPathfindingManager_new region godlike) = Inr w"
  shows "agentStateSignalled (setAgentState s w) =
           agentStateSignalled w @ [(s, mAgentStateSignal w)] \<and>
         mAgentState (setAgentState s w) = s \<and>
         getLastKnownNonErrorAgentState (setAgentState s w) =
           (if s = kAgentStateError then getLastKnownNonErrorAgentState w else s) \<and>
         getLastKnownNonErrorAgentState w =
           last (kAgentStateUnknown #
                 filter (\<lambda>s. s \<noteq> kAgentStateError) (agentStatesSet w)) \<and>
         getLastKnownNonErrorAgentState w \<noteq> kAgentStateError"
proof -
  from perform_all_last_known_ok [OF last_known_ok_new run]
  have ok: "mLastKnownNonErrorAgentState w = lastNonError (agentStatesSet w)"
    by (simp add: last_known_ok_def)
  then have "mLastKnownNonErrorAgentState w \<noteq> kAgentStateError"
    by (simp add: lastNonError_not_error)
  with ok show ?thesis
    by (simp add: getLastKnownNonErrorAgentState_def setAgentState_fields lastNonError_def)
qed


text \<open>
  Claim C9, witness: a listener registers, the agent asks for \<open>kAgentStateUnfrozen\<close>, the
  simulator confirms, and a later request fails. The state is \<open>kAgentStateError\<close>, the
  last known state that is not an error is \<open>kAgentStateUnfrozen\<close>, and a further
  transition is sent to the listener.
\<close>

theorem agent_state_broadcast_and_last_known_witness:
  "perform_all
     [Call_registerAgentStateListener 3,
      Call_requestSetAgentState kAgentStateUnfrozen,
      Result_AgentState ''https://sim/agent'' kAgentStateUnfrozen
        (LLSDMap [(''alter_navmesh_objects'', LLSDBoolean True)]),
      Error_AgentState ''https://sim/agent'' kAgentStateUnknown 500 ''Internal Server Error'']
     (LLPathfindingManager_new (Some region_full) False) =
   Inr (AgentStateResponder_error ''https://sim/agent'' kAgentStateUnknown 500
          ''Internal Server Error''
          (AgentStateResponder_result ''https://sim/agent'' kAgentStateUnfrozen
             (LLSDMap [(''alter_navmesh_objects'', LLSDBoolean True)])
             (requestSetAgentState kAgentStateUnfrozen
                (registerAgentStateListener 3
                   (LLPathfindingManager_new (Some region_full) False))))) \<and>
   agentStatesSet
     (AgentStateResponder_error ''https://sim/agent'' kAgentStateUnknown 500
          ''Internal Server Error''
          (AgentStateResponder_result ''https://sim/agent'' kAgentStateUnfrozen
             (LLSDMap [(''alter_navmesh_objects'', LLSDBoolean True)])
             (requestSetAgentState kAgentStateUnfrozen
                (registerAgentStateListener 3
                   (LLPathfindingManager_new (Some region_full) False))))) =
     [kAgentStateUnfrozen, kAgentStateError] \<and>
   getLastKnownNonErrorAgentState
     (AgentStateResponder_error ''https://sim/agent'' kAgentStateUnknown 500
          ''Internal Server Error''
          (AgentStateResponder_result ''https://sim/agent'' kAgentStateUnfrozen
             (LLSDMap [(''alter_navmesh_objects'', LLSDBoolean True)])
             (requestSetAgentState kAgentStateUnfrozen
                (registerAgentStateListener 3
                   (LLPathfindingManager_new (Some region_full) False))))) =
     kAgentStateUnfrozen \<and>
   agentStateSignalled
     (setAgentState kAgentStateFrozen
       (AgentStateResponder_error ''https://sim/agent'' kAgentStateUnknown 500
          ''Internal Server Error''
          (AgentStateResponder_result ''https://sim/agent'' kAgentStateUnfrozen
             (LLSDMap [(''alter_navmesh_objects'', LLSDBoolean True)])
             (requestSetAgentState kAgentStateUnfrozen
                (registerAgentStateListener 3
                   (LLPathfindingManager_new (Some region_full) False)))))) =
     [(kAgentStateUnfrozen, [3]), (kAgentStateError, [3]), (kAgentStateFrozen, [3])]"
proof -
  let ?init = "LLPathfindingManager_new (Some region_full) False"
  let ?c = "LLSDMap [(''alter_navmesh_objects'', LLSDBoolean True)]"
  let ?w = "AgentStateResponder_error ''https://sim/agent'' kAgentStateUnknown 500
          ''Internal Server Error''
          (AgentStateResponder_result ''https://sim/agent'' kAgentStateUnfrozen ?c
             (requestSetAgentState kAgentStateUnfrozen (registerAgentStateListener 3 ?init)))"
  have run: "perform_all
     [Call_registerAgentStateListener 3,
      Call_requestSetAgentState kAgentStateUnfrozen,
      Result_AgentState ''https://sim/agent'' kAgentStateUnfrozen ?c,
      Error_AgentState ''https://sim/agent'' kAgentStateUnknown 500 ''Internal Server Error'']
     ?init = Inr ?w"
    by simp
  have signalled: "agentStateSignalled ?w = [(kAgentStateUnfrozen, [3]), (kAgentStateError, [3])]"
    and listeners: "mAgentStateSignal ?w = [3]"
    by (simp_all add: AgentStateResponder_error_def handleAgentStateError_def
        registerAgentStateListener_def url_defs scenario_defs agent_defs Let_def)
  from agent_state_broadcast_and_last_known [OF run, of kAgentStateFrozen] signalled listeners
  have "agentStatesSet ?w = [kAgentStateUnfrozen, kAgentStateError] \<and>
        getLastKnownNonErrorAgentState ?w = kAgentStateUnfrozen \<and>
        agentStateSignalled (setAgentState kAgentStateFrozen ?w) =
          [(kAgentStateUnfrozen, [3]), (kAgentStateError, [3]), (kAgentStateFrozen, [3])]"
    by (simp add: agentStatesSet_def)
  with run show ?thesis by (rule conjI)
qed

section \<open>Theorems: the linksets requests\<close>

text \<open>
  Claim C10. \<open>requestGetLinksets\<close> returns \<open>kLinksetsRequestNotEnabled\<close> whenever the
  object linksets or the terrain linksets capability address of the current region is
  empty, whether or not the agent may view terrain properties, and leaves the world as it
  was: no coordinator is built, no request is handed to the HTTP client and no callback is
  invoked; since no responder exists, none can invoke the callback later.
\<close>

theorem requestGetLinksets_not_enabled:
  assumes "getObjectLinksetsURLForCurrentRegion w = [] \<or>
           getTerrainLinksetsURLForCurrentRegion w = []"
  shows "requestGetLinksets pLinksetsCallback w = (kLinksetsRequestNotEnabled, w)"
  using assms by (auto simp: requestGetLinksets_def Let_def)

text \<open>
  Claim C10, witness: a pathfinding region that serves object linksets but not terrain
  linksets, and an agent who may not view terrain properties, so that the terrain request
  would not have been made.
\<close>

theorem requestGetLinksets_not_enabled_witness:
  "getObjectLinksetsURLForCurrentRegion (LLPathfindingManager_new (Some region_partial) False)
     = ''https://sim/objects'' \<and>
   getTerrainLinksetsURLForCurrentRegion (LLPathfindingManager_new (Some region_partial) False)
     = [] \<and>
   isAllowViewTerrainProperties (LLPathfindingManager_new (Some region_partial) False) = False \<and>
   requestGetLinksets 7 (LLPathfindingManager_new (Some region_partial) False) =
     (kLinksetsRequestNotEnabled, LLPathfindingManager_new (Some region_partial) False) \<and>
   httpRequests (snd (requestGetLinksets 7 (LLPathfindingManager_new (Some region_partial) False)))
     = [] \<and>
   linksetsCalls (snd (requestGetLinksets 7 (LLPathfindingManager_new (Some region_partial) False)))
     = []"
proof -
  let ?w = "LLPathfindingManager_new (Some region_partial) False"
  have obj: "getObjectLinksetsURLForCurrentRegion ?w = ''https://sim/objects''"
    and terr: "getTerrainLinksetsURLForCurrentRegion ?w = []"
    and view: "isAllowViewTerrainProperties ?w = False"
    by (simp_all add: url_defs scenario_defs)
  have logs: "httpRequests ?w = []" "linksetsCalls ?w = []"
    by (simp_all add: scenario_defs)
  from requestGetLinksets_not_enabled [OF disjI2 [OF terr], of 7] obj terr view logs
  show ?thesis by simp
qed

text \<open>
  Claim C7, as amended. Both requests return at once, without invoking the callback.
  \<open>requestGetLinksets\<close> returns \<open>kLinksetsRequestNotEnabled\<close>, leaving the world as it was,
  when either capability address is empty; otherwise it returns \<open>kLinksetsRequestStarted\<close>,
  having built a coordinator with the caller's callback and handed the HTTP client a GET
  for the objects and, for an agent who may view terrain properties, a GET for the terrain,
  their responders pointing at that coordinator. \<open>requestSetLinksets\<close> returns
  \<open>kLinksetsRequestNotEnabled\<close> in the same case; \<open>kLinksetsRequestCompleted\<close>, leaving
  the world as it was, when both addresses are there and neither the object fields nor the
  terrain fields (encoded only for an agent who may view terrain properties, and undefined
  otherwise) hold anything to send; and \<open>kLinksetsRequestStarted\<close> otherwise, having built
  a coordinator for the sub-operations that have something to send and handed the HTTP
  client one PUT for each. After \<open>kLinksetsRequestStarted\<close>, once the HTTP client has
  completed each responder it was handed, the caller's callback has been invoked exactly
  once.
\<close>

theorem linksets_request_status:
  "(let objectLinksetsURL = getObjectLinksetsURLForCurrentRegion w;
        terrainLinksetsURL = getTerrainLinksetsURLForCurrentRegion w;
        doRequestTerrain = isAllowViewTerrainProperties w;
        this = nextLinksetsResponder w;
        got = requestGetLinksets pLinksetsCallback w
    in (fst got = kLinksetsRequestNotEnabled \<or> fst got = kLinksetsRequestStarted) \<and>
       linksetsCalls (snd got) = linksetsCalls w \<and>
       (objectLinksetsURL = [] \<or> terrainLinksetsURL = [] \<longrightarrow>
          got = (kLinksetsRequestNotEnabled, w)) \<and>
       (objectLinksetsURL \<noteq> [] \<and> terrainLinksetsURL \<noteq> [] \<longrightarrow>
          got =
            (kLinksetsRequestStarted,
             w\<lparr>linksetsResponders := (linksetsResponders w)
                  (this \<mapsto> LinksetsResponder_ctor pLinksetsCallback True doRequestTerrain),
               nextLinksetsResponder := Suc this,
               httpRequests := httpRequests w @
                 HTTPGet objectLinksetsURL (ObjectLinksetsResponder objectLinksetsURL this) #
                 (if doRequestTerrain
                  then [HTTPGet terrainLinksetsURL
                          (TerrainLinksetsResponder terrainLinksetsURL this)]
                  else [])\<rparr>)) \<and>
       (fst got = kLinksetsRequestStarted \<and> completes_once True doRequestTerrain es \<longrightarrow>
          (\<exists>w' status list.
             complete_all objectLinksetsURL terrainLinksetsURL this es (snd got) = Inr w' \<and>
             linksetsCalls w' = linksetsCalls w @ [(pLinksetsCallback, status, list)]))) \<and>
   (let objectLinksetsURL = getObjectLinksetsURLForCurrentRegion w;
        terrainLinksetsURL = getTerrainLinksetsURLForCurrentRegion w;
        objectPostData = encodeObjectFields pLinksetList pLinksetUse pA pB pC pD;
        terrainPostData =
          (if isAllowViewTerrainProperties w
           then encodeTerrainFields pLinksetList pLinksetUse pA pB pC pD
           else LLSDUndefined);
        this = nextLinksetsResponder w;
        put = requestSetLinksets encodeObjectFields encodeTerrainFields pLinksetList pLinksetUse
                pA pB pC pD pLinksetsCallback w
    in (fst put = kLinksetsRequestNotEnabled \<or> fst put = kLinksetsRequestStarted \<or>
        fst put = kLinksetsRequestCompleted) \<and>
       linksetsCalls (snd put) = linksetsCalls w \<and>
       (objectLinksetsURL = [] \<or> terrainLinksetsURL = [] \<longrightarrow>
          put = (kLinksetsRequestNotEnabled, w)) \<and>
       (objectLinksetsURL \<noteq> [] \<and> terrainLinksetsURL \<noteq> [] \<and>
        isUndefined objectPostData \<and> isUndefined terrainPostData \<longrightarrow>
          put = (kLinksetsRequestCompleted, w)) \<and>
       (objectLinksetsURL \<noteq> [] \<and> terrainLinksetsURL \<noteq> [] \<and>
        \<not> (isUndefined objectPostData \<and> isUndefined terrainPostData) \<longrightarrow>
          put =
            (kLinksetsRequestStarted,
             w\<lparr>linksetsResponders := (linksetsResponders w)
                  (this \<mapsto> LinksetsResponder_ctor pLinksetsCallback
                             (\<not> isUndefined objectPostData) (\<not> isUndefined terrainPostData)),
               nextLinksetsResponder := Suc this,
               httpRequests := httpRequests w @
                 (if \<not> isUndefined objectPostData
                  then [HTTPPut objectLinksetsURL objectPostData
                          (ObjectLinksetsResponder objectLinksetsURL this)]
                  else []) @
                 (if \<not> isUndefined terrainPostData
                  then [HTTPPut terrainLinksetsURL terrainPostData
                          (TerrainLinksetsResponder terrainLinksetsURL this)]
                  else [])\<rparr>)) \<and>
       (fst put = kLinksetsRequestStarted \<and>
        completes_once (\<not> isUndefined objectPostData) (\<not> isUndefined terrainPostData) es \<longrightarrow>
          (\<exists>w' status list.
             complete_all objectLinksetsURL terrainLinksetsURL this es (snd put) = Inr w' \<and>
             linksetsCalls w' = linksetsCalls w @ [(pLinksetsCallback, status, list)])))"
proof -
  let ?ou = "getObjectLinksetsURLForCurrentRegion w"
  let ?tu = "getTerrainLinksetsURLForCurrentRegion w"
  let ?allow = "isAllowViewTerrainProperties w"
  let ?ptr = "nextLinksetsResponder w"
  let ?got = "requestGetLinksets pLinksetsCallback w"
  let ?od = "encodeObjectFields pLinksetList pLinksetUse pA pB pC pD"
  let ?td = "if ?allow then encodeTerrainFields pLinksetList pLinksetUse pA pB pC pD
             else LLSDUndefined"
  let ?put = "requestSetLinksets encodeObjectFields encodeTerrainFields pLinksetList pLinksetUse
                pA pB pC pD pLinksetsCallback w"
  have get_off: "?got = (kLinksetsRequestNotEnabled, w)" if "?ou = [] \<or> ?tu = []"
    using that by (auto simp: requestGetLinksets_def Let_def)
  have get_on: "?got =
      (kLinksetsRequestStarted,
       w\<lparr>linksetsResponders := (linksetsResponders w)
            (?ptr \<mapsto> LinksetsResponder_ctor pLinksetsCallback True ?allow),
         nextLinksetsResponder := Suc ?ptr,
         httpRequests := httpRequests w @
           HTTPGet ?ou (ObjectLinksetsResponder ?ou ?ptr) #
           (if ?allow then [HTTPGet ?tu (TerrainLinksetsResponder ?tu ?ptr)] else [])\<rparr>)"
    if "?ou \<noteq> [] \<and> ?tu \<noteq> []"
    using that
    by (simp add: requestGetLinksets_def Let_def LinksetsResponder_new_def http_get_def)
  have get_facts: "(fst ?got = kLinksetsRequestNotEnabled \<or> fst ?got = kLinksetsRequestStarted) \<and>
      linksetsCalls (snd ?got) = linksetsCalls w"
  proof (cases "?ou = [] \<or> ?tu = []")
    case True
    show ?thesis by (simp add: get_off [OF True])
  next
    case False
    then have on: "?ou \<noteq> [] \<and> ?tu \<noteq> []" by simp
    show ?thesis by (simp add: get_on [OF on])
  qed
  note get_status = get_facts [THEN conjunct1] and get_calls = get_facts [THEN conjunct2]
  have get_later: "\<exists>w' status list.
      complete_all ?ou ?tu ?ptr es (snd ?got) = Inr w' \<and>
      linksetsCalls w' = linksetsCalls w @ [(pLinksetsCallback, status, list)]"
    if "fst ?got = kLinksetsRequestStarted \<and> completes_once True ?allow es"
  proof -
    from that get_off have on: "?ou \<noteq> [] \<and> ?tu \<noteq> []" by auto
    have fresh: "linksetsResponders (snd ?got) ?ptr =
        Some (LinksetsResponder_ctor pLinksetsCallback True ?allow)"
      by (simp add: get_on [OF on])
    from that have once: "completes_once True ?allow es" by simp
    from fired_once_cases [OF fresh disjI1 [OF TrueI] once, of ?ou ?tu]
    obtain w' status list where
      "complete_all ?ou ?tu ?ptr es (snd ?got) = Inr w'"
      "linksetsCalls w' = linksetsCalls (snd ?got) @ [(pLinksetsCallback, status, list)]"
      unfolding fired_once_def by blast
    with get_calls show ?thesis by simp
  qed
  have put_off: "?put = (kLinksetsRequestNotEnabled, w)" if "?ou = [] \<or> ?tu = []"
    using that by (auto simp: requestSetLinksets_def Let_def)
  have put_done: "?put = (kLinksetsRequestCompleted, w)"
    if "?ou \<noteq> [] \<and> ?tu \<noteq> [] \<and> isUndefined ?od \<and> isUndefined ?td"
    using that by (simp add: requestSetLinksets_def Let_def)
  have put_on: "?put =
      (kLinksetsRequestStarted,
       w\<lparr>linksetsResponders := (linksetsResponders w)
            (?ptr \<mapsto> LinksetsResponder_ctor pLinksetsCallback
                        (\<not> isUndefined ?od) (\<not> isUndefined ?td)),
         nextLinksetsResponder := Suc ?ptr,
         httpRequests := httpRequests w @
           (if \<not> isUndefined ?od
            then [HTTPPut ?ou ?od (ObjectLinksetsResponder ?ou ?ptr)] else []) @
           (if \<not> isUndefined ?td
            then [HTTPPut ?tu ?td (TerrainLinksetsResponder ?tu ?ptr)] else [])\<rparr>)"
    if "?ou \<noteq> [] \<and> ?tu \<noteq> [] \<and> \<not> (isUndefined ?od \<and> isUndefined ?td)"
    using that
    by (auto simp: requestSetLinksets_def Let_def LinksetsResponder_new_def http_put_def)
  consider (off) "?ou = [] \<or> ?tu = []"
    | (unchanged) "?ou \<noteq> [] \<and> ?tu \<noteq> [] \<and> isUndefined ?od \<and> isUndefined ?td"
    | (on) "?ou \<noteq> [] \<and> ?tu \<noteq> [] \<and> \<not> (isUndefined ?od \<and> isUndefined ?td)"
    by blast
  then have put_facts: "(fst ?put = kLinksetsRequestNotEnabled \<or>
      fst ?put = kLinksetsRequestStarted \<or> fst ?put = kLinksetsRequestCompleted) \<and>
      linksetsCalls (snd ?put) = linksetsCalls w \<and>
      (fst ?put = kLinksetsRequestStarted \<longrightarrow>
        ?ou \<noteq> [] \<and> ?tu \<noteq> [] \<and> \<not> (isUndefined ?od \<and> isUndefined ?td))"
  proof cases
    case off
    from put_off [OF off]
    have "fst ?put = kLinksetsRequestNotEnabled" "snd ?put = w" by simp_all
    then show ?thesis by simp
  next
    case unchanged
    from put_done [OF unchanged]
    have "fst ?put = kLinksetsRequestCompleted" "snd ?put = w" by simp_all
    then show ?thesis by simp
  next
    case on
    from put_on [OF on]
    have "fst ?put = kLinksetsRequestStarted" "linksetsCalls (snd ?put) = linksetsCalls w"
      by simp_all
    with on show ?thesis by simp
  qed
  note put_status = put_facts [THEN conjunct1]
    and put_calls = put_facts [THEN conjunct2, THEN conjunct1]
    and put_started = put_facts [THEN conjunct2, THEN conjunct2]
  have put_later: "\<exists>w' status list.
      complete_all ?ou ?tu ?ptr es (snd ?put) = Inr w' \<and>
      linksetsCalls w' = linksetsCalls w @ [(pLinksetsCallback, status, list)]"
    if "fst ?put = kLinksetsRequestStarted \<and>
        completes_once (\<not> isUndefined ?od) (\<not> isUndefined ?td) es"
  proof -
    from that put_started have on: "?ou \<noteq> [] \<and> ?tu \<noteq> [] \<and>
        \<not> (isUndefined ?od \<and> isUndefined ?td)" by blast
    then have some: "\<not> isUndefined ?od \<or> \<not> isUndefined ?td" by blast
    have fresh: "linksetsResponders (snd ?put) ?ptr =
        Some (LinksetsResponder_ctor pLinksetsCallback
                (\<not> isUndefined ?od) (\<not> isUndefined ?td))"
      by (simp add: put_on [OF on])
    from that have once: "completes_once (\<not> isUndefined ?od) (\<not> isUndefined ?td) es"
      by blast
    from fired_once_cases [OF fresh some once, of ?ou ?tu]
    obtain w' status list where
      "complete_all ?ou ?tu ?ptr es (snd ?put) = Inr w'"
      "linksetsCalls w' = linksetsCalls (snd ?put) @ [(pLinksetsCallback, status, list)]"
      unfolding fired_once_def by blast
    with put_calls show ?thesis by simp
  qed
  have "(fst ?got = kLinksetsRequestNotEnabled \<or> fst ?got = kLinksetsRequestStarted) \<and>
       linksetsCalls (snd ?got) = linksetsCalls w \<and>
       (?ou = [] \<or> ?tu = [] \<longrightarrow> ?got = (kLinksetsRequestNotEnabled, w)) \<and>
       (?ou \<noteq> [] \<and> ?tu \<noteq> [] \<longrightarrow>
          ?got =
            (kLinksetsRequestStarted,
             w\<lparr>linksetsResponders := (linksetsResponders w)
                  (?ptr \<mapsto> LinksetsResponder_ctor pLinksetsCallback True ?allow),
               nextLinksetsResponder := Suc ?ptr,
               httpRequests := httpRequests w @
                 HTTPGet ?ou (ObjectLinksetsResponder ?ou ?ptr) #
                 (if ?allow then [HTTPGet ?tu (TerrainLinksetsResponder ?tu ?ptr)] else [])\<rparr>)) \<and>
       (fst ?got = kLinksetsRequestStarted \<and> completes_once True ?allow es \<longrightarrow>
          (\<exists>w' status list.
             complete_all ?ou ?tu ?ptr es (snd ?got) = Inr w' \<and>
             linksetsCalls w' = linksetsCalls w @ [(pLinksetsCallback, status, list)]))"
    using get_status get_calls get_off get_on get_later by (intro conjI impI)
  moreover
  have "(fst ?put = kLinksetsRequestNotEnabled \<or> fst ?put = kLinksetsRequestStarted \<or>
        fst ?put = kLinksetsRequestCompleted) \<and>
       linksetsCalls (snd ?put) = linksetsCalls w \<and>
       (?ou = [] \<or> ?tu = [] \<longrightarrow> ?put = (kLinksetsRequestNotEnabled, w)) \<and>
       (?ou \<noteq> [] \<and> ?tu \<noteq> [] \<and> isUndefined ?od \<and> isUndefined ?td \<longrightarrow>
          ?put = (kLinksetsRequestCompleted, w)) \<and>
       (?ou \<noteq> [] \<and> ?tu \<noteq> [] \<and> \<not> (isUndefined ?od \<and> isUndefined ?td) \<longrightarrow>
          ?put =
            (kLinksetsRequestStarted,
             w\<lparr>linksetsResponders := (linksetsResponders w)
                  (?ptr \<mapsto> LinksetsResponder_ctor pLinksetsCallback
                              (\<not> isUndefined ?od) (\<not> isUndefined ?td)),
               nextLinksetsResponder := Suc ?ptr,
               httpRequests := httpRequests w @
                 (if \<not> isUndefined ?od
                  then [HTTPPut ?ou ?od (ObjectLinksetsResponder ?ou ?ptr)] else []) @
                 (if \<not> isUndefined ?td
                  then [HTTPPut ?tu ?td (TerrainLinksetsResponder ?tu ?ptr)] else [])\<rparr>)) \<and>
       (fst ?put = kLinksetsRequestStarted \<and>
        completes_once (\<not> isUndefined ?od) (\<not> isUndefined ?td) es \<longrightarrow>
          (\<exists>w' status list.
             complete_all ?ou ?tu ?ptr es (snd ?put) = Inr w' \<and>
             linksetsCalls w' = linksetsCalls w @ [(pLinksetsCallback, status, list)]))"
    using put_status put_calls put_off put_done put_on put_later by (intro conjI impI)
  ultimately show ?thesis
    unfolding Let_def by (rule conjI)
qed

text \<open>
  Claim C7, witness: in a region with every capability \<open>requestGetLinksets\<close> starts: the
  coordinator is built, a GET for the objects and a GET for the terrain are with the HTTP
  client, and no callback has been invoked; once both are completed the callback has been
  invoked once.
\<close>

theorem linksets_request_status_witness:
  "fst (requestGetLinksets 7 (LLPathfindingManager_new (Some region_full) False))
     = kLinksetsRequestStarted \<and>
   linksetsResponders (snd (requestGetLinksets 7 (LLPathfindingManager_new (Some region_full) False))) 0
     = Some (LinksetsResponder_ctor 7 True True) \<and>
   httpRequests (snd (requestGetLinksets 7 (LLPathfindingManager_new (Some region_full) False)))
     = [HTTPGet ''https://sim/objects'' (ObjectLinksetsResponder ''https://sim/objects'' 0),
        HTTPGet ''https://sim/terrain'' (TerrainLinksetsResponder ''https://sim/terrain'' 0)] \<and>
   linksetsCalls (snd (requestGetLinksets 7 (LLPathfindingManager_new (Some region_full) False)))
     = [] \<and>
   completes_once True True [ObjectResult [''obj1'' \<mapsto> obj1], TerrainResult terrain1] \<and>
   (\<exists>w' status list.
      complete_all ''https://sim/objects'' ''https://sim/terrain'' 0
        [ObjectResult [''obj1'' \<mapsto> obj1], TerrainResult terrain1]
        (snd (requestGetLinksets 7 (LLPathfindingManager_new (Some region_full) False))) = Inr w' \<and>
      linksetsCalls w' = [(7, status, list)])"
proof -
  let ?w = "LLPathfindingManager_new (Some region_full) False"
  let ?es = "[ObjectResult [''obj1'' \<mapsto> obj1], TerrainResult terrain1]"
  have urls: "getObjectLinksetsURLForCurrentRegion ?w = ''https://sim/objects''"
    "getTerrainLinksetsURLForCurrentRegion ?w = ''https://sim/terrain''"
    and view: "isAllowViewTerrainProperties ?w"
    by (simp_all add: url_defs scenario_defs)
  have fields: "nextLinksetsResponder ?w = 0" "linksetsCalls ?w = []" "httpRequests ?w = []"
    by (simp_all add: scenario_defs)
  have once: "completes_once True True ?es"
    by (simp add: completes_once_def)
  note t = linksets_request_status [of ?w 7 ?es, unfolded Let_def, THEN conjunct1]
  from t [THEN conjunct2, THEN conjunct2, THEN conjunct2, THEN conjunct1] urls view fields
  have started: "requestGetLinksets 7 ?w =
      (kLinksetsRequestStarted,
       ?w\<lparr>linksetsResponders := (linksetsResponders ?w)(0 \<mapsto> LinksetsResponder_ctor 7 True True),
          nextLinksetsResponder := Suc 0,
          httpRequests :=
            [HTTPGet ''https://sim/objects'' (ObjectLinksetsResponder ''https://sim/objects'' 0),
             HTTPGet ''https://sim/terrain'' (TerrainLinksetsResponder ''https://sim/terrain'' 0)]\<rparr>)"
    by simp
  then have status: "fst (requestGetLinksets 7 ?w) = kLinksetsRequestStarted"
    and store: "linksetsResponders (snd (requestGetLinksets 7 ?w)) 0 =
      Some (LinksetsResponder_ctor 7 True True)"
    and requests: "httpRequests (snd (requestGetLinksets 7 ?w)) =
      [HTTPGet ''https://sim/objects'' (ObjectLinksetsResponder ''https://sim/objects'' 0),
       HTTPGet ''https://sim/terrain'' (TerrainLinksetsResponder ''https://sim/terrain'' 0)]"
    by simp_all
  from t [THEN conjunct2, THEN conjunct1] fields
  have calls: "linksetsCalls (snd (requestGetLinksets 7 ?w)) = []"
    by simp
  from t [THEN conjunct2, THEN conjunct2, THEN conjunct2, THEN conjunct2] status once
    urls view fields
  have later: "\<exists>w' status list.
      complete_all ''https://sim/objects'' ''https://sim/terrain'' 0 ?es
        (snd (requestGetLinksets 7 ?w)) = Inr w' \<and>
      linksetsCalls w' = [(7, status, list)]"
    by simp
  show ?thesis
    by (intro conjI) (rule status store requests calls once later)+
qed

text \<open>
  Claim C7, counterexample to the claim as stated: in a region with every capability,
  \<open>requestSetLinksets\<close> with nothing to send returns \<open>kLinksetsRequestCompleted\<close>, which is
  neither of the two statuses of the claim; no request is made and no coordinator is built,
  so the callback is never invoked.
\<close>

theorem requestSetLinksets_completed_counterexample:
  "requestSetLinksets encode_nothing encode_nothing Map.empty kWalkable 0 0 0 0 7
     (LLPathfindingManager_new (Some region_full) False) =
     (kLinksetsRequestCompleted, LLPathfindingManager_new (Some region_full) False) \<and>
   httpRequests (LLPathfindingManager_new (Some region_full) False) = [] \<and>
   linksetsResponders (LLPathfindingManager_new (Some region_full) False) 0 = None"
  by (simp add: requestSetLinksets_def Let_def url_defs scenario_defs encode_nothing_def)

section \<open>Theorems: the navmesh cache\<close>

lemma getNavMeshForRegion_UUID_fields:
  "fst (getNavMeshForRegion_UUID u w) = u"
  "httpRequests (snd (getNavMeshForRegion_UUID u w)) = httpRequests w"
  "mNavMeshVersionXXX (snd (getNavMeshForRegion_UUID u w)) = mNavMeshVersionXXX w"
  "mNavMeshMap (snd (getNavMeshForRegion_UUID u w)) u \<noteq> None"
  "k \<noteq> u \<Longrightarrow> mNavMeshMap (snd (getNavMeshForRegion_UUID u w)) k = mNavMeshMap w k"
  "mNavMeshMap w u = Some e \<Longrightarrow> snd (getNavMeshForRegion_UUID u w) = w"
  "mNavMeshMap w u = None \<Longrightarrow>
     mNavMeshMap (snd (getNavMeshForRegion_UUID u w)) u = Some (LLPathfindingNavMesh_new u)"
  by (simp_all add: getNavMeshForRegion_UUID_def split: option.splits)

lemma new_entry_stale: "\<not> hasNavMeshVersion (LLPathfindingNavMesh_new u) v"
  by (simp add: hasNavMeshVersion_def LLPathfindingNavMesh_new_def)

lemma navMesh_has_after_lookup:
  "navMesh_hasNavMeshVersion u v (snd (getNavMeshForRegion_UUID u w)) =
     navMesh_hasNavMeshVersion u v w"
  by (cases "mNavMeshMap w u")
     (simp_all add: navMesh_hasNavMeshVersion_def getNavMeshForRegion_UUID_fields new_entry_stale)

lemma navMesh_call_fields:
  "httpRequests (navMesh_call p m w) = httpRequests w"
  "mNavMeshVersionXXX (navMesh_call p m w) = mNavMeshVersionXXX w"
  by (simp_all add: navMesh_call_def split: option.splits)

text \<open>
  Claim C5. \<open>requestGetNavMeshForRegion\<close> for a region whose cache entry has the manager's
  current version calls \<open>handleRefresh\<close> on that entry and does nothing else, so no request
  reaches the HTTP client. A request is handed to the HTTP client exactly when the entry
  does not have the current version, the region is not null and its retrieve-navmesh
  capability address is not empty; it is then one POST to that address, with a responder
  for the current version and the entry.
\<close>

theorem requestGetNavMeshForRegion_refresh_or_post:
  "(mNavMeshMap w (fst (getNavMeshForRegion pRegion w)) = Some e \<and>
    hasNavMeshVersion e (mNavMeshVersionXXX w) \<longrightarrow>
      requestGetNavMeshForRegion pRegion w =
        w\<lparr>mNavMeshMap := (mNavMeshMap w)(fst (getNavMeshForRegion pRegion w) \<mapsto> handleRefresh e)\<rparr> \<and>
      httpRequests (requestGetNavMeshForRegion pRegion w) = httpRequests w) \<and>
   (httpRequests (requestGetNavMeshForRegion pRegion w) \<noteq> httpRequests w) =
     (\<not> navMesh_hasNavMeshVersion (fst (getNavMeshForRegion pRegion w)) (mNavMeshVersionXXX w) w \<and>
      pRegion \<noteq> None \<and> getRetrieveNavMeshURLForRegion pRegion \<noteq> []) \<and>
   (\<not> navMesh_hasNavMeshVersion (fst (getNavMeshForRegion pRegion w)) (mNavMeshVersionXXX w) w \<and>
    pRegion \<noteq> None \<and> getRetrieveNavMeshURLForRegion pRegion \<noteq> [] \<longrightarrow>
      httpRequests (requestGetNavMeshForRegion pRegion w) =
        httpRequests w @
          [HTTPPost (getRetrieveNavMeshURLForRegion pRegion) LLSDUndefined
             (NavMeshResponder (getRetrieveNavMeshURLForRegion pRegion) (mNavMeshVersionXXX w)
                (fst (getNavMeshForRegion pRegion w)))])"
proof -
  let ?u = "fst (getNavMeshForRegion pRegion w)"
  let ?w1 = "snd (getNavMeshForRegion pRegion w)"
  have u: "getNavMeshForRegion pRegion w = getNavMeshForRegion_UUID ?u w"
    by (simp add: getNavMeshForRegion_def Let_def getNavMeshForRegion_UUID_fields)
  have w1: "?w1 = snd (getNavMeshForRegion_UUID ?u w)"
    using u by simp
  have ver: "mNavMeshVersionXXX ?w1 = mNavMeshVersionXXX w"
    and req: "httpRequests ?w1 = httpRequests w"
    and has: "navMesh_hasNavMeshVersion ?u v ?w1 = navMesh_hasNavMeshVersion ?u v w" for v
    unfolding w1 by (simp_all add: getNavMeshForRegion_UUID_fields navMesh_has_after_lookup)
  have fresh: "requestGetNavMeshForRegion pRegion w =
        w\<lparr>mNavMeshMap := (mNavMeshMap w)(?u \<mapsto> handleRefresh e)\<rparr> \<and>
      httpRequests (requestGetNavMeshForRegion pRegion w) = httpRequests w"
    if e: "mNavMeshMap w ?u = Some e" and h: "hasNavMeshVersion e (mNavMeshVersionXXX w)"
  proof -
    from e have same: "?w1 = w"
      unfolding w1 by (simp add: getNavMeshForRegion_UUID_fields)
    from e h have "navMesh_hasNavMeshVersion ?u (mNavMeshVersionXXX w) w"
      by (simp add: navMesh_hasNavMeshVersion_def)
    with same e show ?thesis
      by (simp add: requestGetNavMeshForRegion_def Let_def navMesh_call_def)
  qed
  have stale: "httpRequests (requestGetNavMeshForRegion pRegion w) =
        httpRequests w @
          [HTTPPost (getRetrieveNavMeshURLForRegion pRegion) LLSDUndefined
             (NavMeshResponder (getRetrieveNavMeshURLForRegion pRegion) (mNavMeshVersionXXX w) ?u)]"
    if "\<not> navMesh_hasNavMeshVersion ?u (mNavMeshVersionXXX w) w" "pRegion \<noteq> None"
      "getRetrieveNavMeshURLForRegion pRegion \<noteq> []"
    using that ver req has
    by (auto simp: requestGetNavMeshForRegion_def Let_def navMesh_call_fields)
  have other: "httpRequests (requestGetNavMeshForRegion pRegion w) = httpRequests w"
    if "navMesh_hasNavMeshVersion ?u (mNavMeshVersionXXX w) w \<or> pRegion = None \<or>
        getRetrieveNavMeshURLForRegion pRegion = []"
    using that ver req has
    by (auto simp: requestGetNavMeshForRegion_def Let_def navMesh_call_fields)
  have iff: "(httpRequests (requestGetNavMeshForRegion pRegion w) \<noteq> httpRequests w) =
     (\<not> navMesh_hasNavMeshVersion ?u (mNavMeshVersionXXX w) w \<and>
      pRegion \<noteq> None \<and> getRetrieveNavMeshURLForRegion pRegion \<noteq> [])"
  proof (cases "\<not> navMesh_hasNavMeshVersion ?u (mNavMeshVersionXXX w) w \<and>
      pRegion \<noteq> None \<and> getRetrieveNavMeshURLForRegion pRegion \<noteq> []")
    case True
    then have "httpRequests (requestGetNavMeshForRegion pRegion w) \<noteq> httpRequests w"
      using stale by simp
    with True show ?thesis by simp
  next
    case False
    then have "navMesh_hasNavMeshVersion ?u (mNavMeshVersionXXX w) w \<or> pRegion = None \<or>
        getRetrieveNavMeshURLForRegion pRegion = []"
      by simp
    then have "httpRequests (requestGetNavMeshForRegion pRegion w) = httpRequests w"
      by (rule other)
    with False show ?thesis by simp
  qed
  show ?thesis
  proof (intro conjI impI)
    assume "mNavMeshMap w ?u = Some e \<and> hasNavMeshVersion e (mNavMeshVersionXXX w)"
    then show "requestGetNavMeshForRegion pRegion w =
        w\<lparr>mNavMeshMap := (mNavMeshMap w)(?u \<mapsto> handleRefresh e)\<rparr>"
      and "httpRequests (requestGetNavMeshForRegion pRegion w) = httpRequests w"
      using fresh by blast+
  next
    show "(httpRequests (requestGetNavMeshForRegion pRegion w) \<noteq> httpRequests w) =
     (\<not> navMesh_hasNavMeshVersion ?u (mNavMeshVersionXXX w) w \<and>
      pRegion \<noteq> None \<and> getRetrieveNavMeshURLForRegion pRegion \<noteq> [])"
      by (rule iff)
  next
    assume "\<not> navMesh_hasNavMeshVersion ?u (mNavMeshVersionXXX w) w \<and>
      pRegion \<noteq> None \<and> getRetrieveNavMeshURLForRegion pRegion \<noteq> []"
    then show "httpRequests (requestGetNavMeshForRegion pRegion w) =
        httpRequests w @
          [HTTPPost (getRetrieveNavMeshURLForRegion pRegion) LLSDUndefined
             (NavMeshResponder (getRetrieveNavMeshURLForRegion pRegion) (mNavMeshVersionXXX w) ?u)]"
      using stale by blast
  qed
qed


lemmas navmesh_defs =
  requestGetNavMeshForRegion_def getNavMeshForRegion_def getNavMeshForRegion_UUID_def
  navMesh_call_def navMesh_hasNavMeshVersion_def hasNavMeshVersion_def handleRefresh_def
  handleNavMeshStart_def handleNavMeshNotEnabled_def handleNavMeshNewVersion_def
  handleNavMeshUpdate_def announce_def LLPathfindingNavMesh_new_def navmesh_completed_def
  world_cached_def LLUUID_null_def

text \<open>
  Claim C5, witness: with completed data of the current version in the cache, the request
  sends the entry's listener the data again and reaches no HTTP client; in a fresh manager,
  the same request is one POST to the region's capability.
\<close>

theorem requestGetNavMeshForRegion_refresh_or_post_witness:
  "mNavMeshMap (world_cached 0) ''a1'' = Some ((navmesh_completed ''a1'' 0)\<lparr>mNavMeshSignal := [5]\<rparr>) \<and>
   hasNavMeshVersion ((navmesh_completed ''a1'' 0)\<lparr>mNavMeshSignal := [5]\<rparr>)
     (mNavMeshVersionXXX (world_cached 0)) \<and>
   requestGetNavMeshForRegion (Some region_full) (world_cached 0) =
     (world_cached 0)\<lparr>mNavMeshMap := (mNavMeshMap (world_cached 0))
        (''a1'' \<mapsto> (navmesh_completed ''a1'' 0)
           \<lparr>mNavMeshSignal := [5], navMeshCalls := [(5, kNavMeshRequestCompleted, 0)]\<rparr>)\<rparr> \<and>
   httpRequests (requestGetNavMeshForRegion (Some region_full) (world_cached 0)) = [] \<and>
   httpRequests (requestGetNavMeshForRegion (Some region_full)
                   (LLPathfindingManager_new (Some region_full) False)) =
     [HTTPPost ''https://sim/navmesh'' LLSDUndefined
        (NavMeshResponder ''https://sim/navmesh'' 0 ''a1'')]"
proof -
  let ?e = "(navmesh_completed ''a1'' 0)\<lparr>mNavMeshSignal := [5]\<rparr>"
  let ?init = "LLPathfindingManager_new (Some region_full) False"
  have ptr: "fst (getNavMeshForRegion (Some region_full) w) = ''a1''" for w
    by (simp add: getNavMeshForRegion_def Let_def getNavMeshForRegion_UUID_fields region_full_def)
  have entry: "mNavMeshMap (world_cached 0) ''a1'' = Some ?e"
    and has: "hasNavMeshVersion ?e (mNavMeshVersionXXX (world_cached 0))"
    and refreshed: "handleRefresh ?e = (navmesh_completed ''a1'' 0)
           \<lparr>mNavMeshSignal := [5], navMeshCalls := [(5, kNavMeshRequestCompleted, 0)]\<rparr>"
    and none: "httpRequests (world_cached 0) = []"
    by (simp_all add: navmesh_defs scenario_defs)
  have stale: "\<not> navMesh_hasNavMeshVersion ''a1'' (mNavMeshVersionXXX ?init) ?init"
    and url: "getRetrieveNavMeshURLForRegion (Some region_full) = ''https://sim/navmesh''"
    and init: "httpRequests ?init = []" "mNavMeshVersionXXX ?init = 0"
    by (simp_all add: navmesh_defs url_defs scenario_defs)
  from requestGetNavMeshForRegion_refresh_or_post [of "world_cached 0" "Some region_full" ?e]
    entry has refreshed none ptr
  have cached: "requestGetNavMeshForRegion (Some region_full) (world_cached 0) =
     (world_cached 0)\<lparr>mNavMeshMap := (mNavMeshMap (world_cached 0))
        (''a1'' \<mapsto> (navmesh_completed ''a1'' 0)
           \<lparr>mNavMeshSignal := [5], navMeshCalls := [(5, kNavMeshRequestCompleted, 0)]\<rparr>)\<rparr> \<and>
   httpRequests (requestGetNavMeshForRegion (Some region_full) (world_cached 0)) = []"
    by simp
  from requestGetNavMeshForRegion_refresh_or_post [of ?init "Some region_full" ?e]
    stale url init ptr
  have posted: "httpRequests (requestGetNavMeshForRegion (Some region_full) ?init) =
     [HTTPPost ''https://sim/navmesh'' LLSDUndefined
        (NavMeshResponder ''https://sim/navmesh'' 0 ''a1'')]"
    by simp
  show ?thesis
    by (intro conjI)
       (rule entry has cached [THEN conjunct1] cached [THEN conjunct2] posted)+
qed

lemma U32_succ_less: "(x :: U32) \<noteq> - 1 \<Longrightarrow> x < x + 1"
  by (simp add: not_le [symmetric] inc_less_eq_self_iff_eq)

lemma handleNavMeshUpdate_fields:
  "mNavMeshVersionXXX (handleNavMeshUpdate u v w) = mNavMeshVersionXXX w + 1"
  "k \<noteq> u \<Longrightarrow> mNavMeshMap (handleNavMeshUpdate u v w) k = mNavMeshMap w k"
  "mNavMeshMap w k = Some e \<Longrightarrow> mNavMeshMap (handleNavMeshUpdate u v w) k = Some e"
  by (auto simp: handleNavMeshUpdate_def Let_def navMesh_call_def getNavMeshForRegion_UUID_def
      handleNavMeshNewVersion_def split: option.splits)

text \<open>
  Claim C6, as amended. Every call of \<open>handleNavMeshUpdate\<close> replaces the counter by its
  successor modulo \<open>2 ^ 32\<close>, whatever version the simulator pushed: the new value differs
  from the old one, and is greater unless the old one was \<open>2 ^ 32 - 1\<close>. The entries of
  other regions are left as they were, and every entry that had the old counter value
  does not have the new one: checked against the manager's counter, as
  \<open>requestGetNavMeshForRegion\<close> checks it, every entry that was fresh is stale.
\<close>

theorem handleNavMeshUpdate_invalidates:
  "mNavMeshVersionXXX (handleNavMeshUpdate pRegionUUID pNavMeshVersion w) =
     mNavMeshVersionXXX w + 1 \<and>
   mNavMeshVersionXXX (handleNavMeshUpdate pRegionUUID pNavMeshVersion w) \<noteq> mNavMeshVersionXXX w \<and>
   (mNavMeshVersionXXX w \<noteq> - 1 \<longrightarrow>
      mNavMeshVersionXXX w < mNavMeshVersionXXX (handleNavMeshUpdate pRegionUUID pNavMeshVersion w)) \<and>
   (\<forall>k. k \<noteq> pRegionUUID \<longrightarrow>
      mNavMeshMap (handleNavMeshUpdate pRegionUUID pNavMeshVersion w) k = mNavMeshMap w k) \<and>
   (\<forall>k. navMesh_hasNavMeshVersion k (mNavMeshVersionXXX w) w \<longrightarrow>
      \<not> navMesh_hasNavMeshVersion k
          (mNavMeshVersionXXX (handleNavMeshUpdate pRegionUUID pNavMeshVersion w))
          (handleNavMeshUpdate pRegionUUID pNavMeshVersion w))"
proof -
  let ?w' = "handleNavMeshUpdate pRegionUUID pNavMeshVersion w"
  have stale: "\<not> navMesh_hasNavMeshVersion k (mNavMeshVersionXXX ?w') ?w'"
    if "navMesh_hasNavMeshVersion k (mNavMeshVersionXXX w) w" for k
  proof -
    from that obtain e where e: "mNavMeshMap w k = Some e"
      and h: "hasNavMeshVersion e (mNavMeshVersionXXX w)"
      by (auto simp: navMesh_hasNavMeshVersion_def split: option.splits)
    from h have "\<not> hasNavMeshVersion e (mNavMeshVersionXXX w + 1)"
      by (simp add: hasNavMeshVersion_def)
    with handleNavMeshUpdate_fields(3) [OF e] show ?thesis
      by (simp add: navMesh_hasNavMeshVersion_def handleNavMeshUpdate_fields(1))
  qed
  then show ?thesis
    by (simp add: handleNavMeshUpdate_fields U32_succ_less)
qed

text \<open>
  Claim C6, witness: the counter is 5 and two regions hold data of version 5; an update for
  the first region moves the counter to 6 and leaves the second region's entry as it was,
  stale against 6.
\<close>

theorem handleNavMeshUpdate_invalidates_witness:
  "mNavMeshVersionXXX (world_cached 5) = 5 \<and>
   navMesh_hasNavMeshVersion ''b2'' 5 (world_cached 5) \<and>
   mNavMeshVersionXXX (handleNavMeshUpdate ''a1'' 0 (world_cached 5)) = 6 \<and>
   mNavMeshVersionXXX (world_cached 5) < mNavMeshVersionXXX (handleNavMeshUpdate ''a1'' 0 (world_cached 5)) \<and>
   mNavMeshMap (handleNavMeshUpdate ''a1'' 0 (world_cached 5)) ''b2'' =
     mNavMeshMap (world_cached 5) ''b2'' \<and>
   \<not> navMesh_hasNavMeshVersion ''b2'' 6 (handleNavMeshUpdate ''a1'' 0 (world_cached 5))"
proof -
  have ver: "mNavMeshVersionXXX (world_cached 5) = 5"
    and has: "navMesh_hasNavMeshVersion ''b2'' 5 (world_cached 5)"
    by (simp_all add: navmesh_defs scenario_defs)
  have neq: "(5 :: U32) \<noteq> - 1" "''b2'' \<noteq> ''a1''" by simp_all
  note t = handleNavMeshUpdate_invalidates [of "''a1''" 0 "world_cached 5"]
  from has ver
  have has': "navMesh_hasNavMeshVersion ''b2'' (mNavMeshVersionXXX (world_cached 5)) (world_cached 5)"
    by simp
  from t [THEN conjunct1] ver
  have six: "mNavMeshVersionXXX (handleNavMeshUpdate ''a1'' 0 (world_cached 5)) = 6"
    by simp
  from t [THEN conjunct2, THEN conjunct2, THEN conjunct1] ver neq(1)
  have less: "mNavMeshVersionXXX (world_cached 5) <
      mNavMeshVersionXXX (handleNavMeshUpdate ''a1'' 0 (world_cached 5))"
    by simp
  note same = t [THEN conjunct2, THEN conjunct2, THEN conjunct2, THEN conjunct1,
      rule_format, OF neq(2)]
  from t [THEN conjunct2, THEN conjunct2, THEN conjunct2, THEN conjunct2, rule_format, OF has']
    six
  have stale: "\<not> navMesh_hasNavMeshVersion ''b2'' 6
      (handleNavMeshUpdate ''a1'' 0 (world_cached 5))"
    by simp
  show ?thesis
    by (intro conjI) (rule ver has six less same stale)+
qed

text \<open>
  Claim C6, counterexample to the claim as stated. With the counter at 5, an update for
  one region leaves the entry of another region having version 5, the previous value:
  \<open>hasNavMeshVersion\<close> does not return false for it. With the counter at \<open>2 ^ 32 - 1\<close>, the
  update takes the counter to 0: it does not increase.
\<close>

theorem handleNavMeshUpdate_counterexample:
  "mNavMeshVersionXXX (world_cached 5) = 5 \<and>
   navMesh_hasNavMeshVersion ''b2'' 5 (handleNavMeshUpdate ''a1'' 0 (world_cached 5)) \<and>
   mNavMeshVersionXXX (world_cached 0xFFFFFFFF) = 0xFFFFFFFF \<and>
   mNavMeshVersionXXX (handleNavMeshUpdate ''a1'' 0 (world_cached 0xFFFFFFFF)) = 0"
  by (simp add: navmesh_defs scenario_defs Let_def)

end
